theory Spec2Isabelle
  imports Main
begin

section \<open>Data model of the map server\<close>

text \<open>
  The map server of MapXchange (\<^verbatim>\<open>src/lib/map_server_backend.py\<close>) keeps, per point of a
  map, three competing ciphertext slots and the bookkeeping of a comparison protocol. This
  theory embeds the backend's operations as functions on an explicit database session.

  A producer is identified by its user name (the column is unique).
\<close>

type_synonym producer = string

text \<open>
  Exceptions as values. \<open>ValueErrorFrom e\<close> is Python's \<^verbatim>\<open>raise ValueError from e\<close>:
  a \<^verbatim>\<open>ValueError\<close> without a message whose cause is \<open>e\<close>.
\<close>

datatype error =
    ValueError string
  | ValueErrorFrom error
  | RuntimeError string
  | NoResultFound
  | MultipleResultsFound
  | IntegrityError
  | TypeError
  | AttributeError
  | IndexError
  | NameError
  | OverflowError

text \<open>The switches of \<^verbatim>\<open>src/lib/config.py\<close> that the backend reads.\<close>

record config =
  EVAL :: bool
  USE_PAILLIER :: bool
  VALID :: bool
  FZ_PRECISION :: int

text \<open>
  The additively homomorphic cipher is the third-party library \<^verbatim>\<open>phe\<close>; the backend uses
  three of its operations, taken here as parameters. An \<^verbatim>\<open>EncryptedNumber\<close> is
  represented by its raw ciphertext, the first argument is the modulus \<open>n\<close> of the public key:
  \<^item> \<open>add_scalar n c k\<close> is \<^verbatim>\<open>EncryptedNumber(PaillierPublicKey(n), c) + k\<close> for an integer \<open>k\<close>
    (\<^verbatim>\<open>x - k\<close> is \<^verbatim>\<open>x + (k * -1)\<close> in the library);
  \<^item> \<open>add_encrypted n c d\<close> is the sum of two encrypted numbers;
  \<^item> \<open>ciphertext n c\<close> is the read-out \<^verbatim>\<open>.ciphertext()\<close>, which re-randomises.
\<close>

record cipher =
  add_scalar :: "int \<Rightarrow> int \<Rightarrow> int \<Rightarrow> int"
  add_encrypted :: "int \<Rightarrow> int \<Rightarrow> int \<Rightarrow> int"
  ciphertext :: "int \<Rightarrow> int \<Rightarrow> int"

text \<open>The rows of \<^verbatim>\<open>src/map_server/map_database.py\<close>; a nullable column is an option.\<close>

record StoredPoint =
  point_id :: int
  map_id :: int
  ap :: int
  ae :: int
  usage_total :: "int option"
  fz_optimal :: "int option"
  provider_optimal :: "producer option"
  fz_pending :: "int option"
  provider_pending :: "producer option"
  fz_unknown :: "int option"
  provider_unknown :: "producer option"
  open_requests :: "producer list"
  current_offset :: "int option"
  current_comparators :: "producer list"
  last_comparator :: "producer option"
  point_vendees :: "producer list"

record MapKey =
  key_map_id :: int
  machine :: string
  material :: string
  tool :: string
  public_key_n :: int
  first_provider :: producer
  past_requests :: "producer list"

record ReverseQuerist =
  querist_producer :: producer
  querist_map_id :: "int option"
  point_count :: nat
  querist_offset :: int
  querist_tool :: string

record MapUsage =
  usage_map_id :: int
  usage_provider_name :: producer
  usage_provider :: "int option"

record RetrievalProducer =
  retrieval_id :: nat
  retrieval_client :: producer
  retrieval_point_count :: nat

record BillingProducer =
  billing_client :: producer
  billing_provider :: producer
  count_provider :: nat
  billing_retrieval :: nat

record PreviewBilling =
  preview_client :: producer
  preview_map_id :: int

record OffsetBilling =
  offset_client :: producer
  offset_point_count :: nat

text \<open>
  The tables, and the SQLAlchemy session: \<open>live\<close> is what the session's objects and queries
  show (pending changes included), \<open>stored\<close> is the last committed state.
\<close>

record database =
  producers :: "producer list"
  map_keys :: "MapKey list"
  points :: "StoredPoint list"
  map_usage :: "MapUsage list"
  reverse_querists :: "ReverseQuerist list"
  retrievals_producer :: "RetrievalProducer list"
  billing_information_producer :: "BillingProducer list"
  preview_billing :: "PreviewBilling list"
  offset_billing :: "OffsetBilling list"

record session =
  live :: database
  stored :: database

definition commit :: "session \<Rightarrow> session" where
  "commit s = s\<lparr>stored := live s\<rparr>"

definition rollback :: "session \<Rightarrow> session" where
  "rollback s = s\<lparr>live := stored s\<rparr>"

definition modify :: "(database \<Rightarrow> database) \<Rightarrow> session \<Rightarrow> session" where
  "modify f s = s\<lparr>live := f (live s)\<rparr>"

text \<open>Writing to the attributes of a loaded point changes the row with its primary key.\<close>

definition put_point :: "StoredPoint \<Rightarrow> database \<Rightarrow> database" where
  "put_point p d =
     d\<lparr>points := map (\<lambda>q. if point_id q = point_id p then p else q) (points d)\<rparr>"

definition put_map_key :: "MapKey \<Rightarrow> database \<Rightarrow> database" where
  "put_map_key m d =
     d\<lparr>map_keys := map (\<lambda>k. if key_map_id k = key_map_id m then m else k) (map_keys d)\<rparr>"

section \<open>Python and query helpers\<close>

text \<open>Truthiness of an \<^verbatim>\<open>int | None\<close>: \<^verbatim>\<open>None\<close> and \<^verbatim>\<open>0\<close> are false.\<close>

definition truthy :: "int option \<Rightarrow> bool" where
  "truthy x = (case x of None \<Rightarrow> False | Some v \<Rightarrow> v \<noteq> 0)"

text \<open>\<^verbatim>\<open>Query.one()\<close> and \<^verbatim>\<open>Query.one_or_none()\<close>.\<close>

definition one :: "'a list \<Rightarrow> error + 'a" where
  "one xs = (case xs of [] \<Rightarrow> Inl NoResultFound | [x] \<Rightarrow> Inr x | _ \<Rightarrow> Inl MultipleResultsFound)"

definition one_or_none :: "'a list \<Rightarrow> error + 'a option" where
  "one_or_none xs =
     (case xs of [] \<Rightarrow> Inr None | [x] \<Rightarrow> Inr (Some x) | _ \<Rightarrow> Inl MultipleResultsFound)"

text \<open>\<^verbatim>\<open>list.remove(x)\<close> removes the first occurrence and raises when there is none.\<close>

definition list_remove :: "'a \<Rightarrow> 'a list \<Rightarrow> error + 'a list" where
  "list_remove x xs =
     (if x \<in> set xs then Inr (remove1 x xs) else Inl (ValueError ''list.remove(x): x not in list''))"

text \<open>\<^verbatim>\<open>if x not in xs: xs.append(x)\<close>\<close>

definition append_new :: "'a \<Rightarrow> 'a list \<Rightarrow> 'a list" where
  "append_new x xs = (if x \<in> set xs then xs else xs @ [x])"

definition bind :: "error + 'a \<Rightarrow> ('a \<Rightarrow> error + 'b) \<Rightarrow> error + 'b" where
  "bind r f = (case r of Inl e \<Rightarrow> Inl e | Inr x \<Rightarrow> f x)"

text \<open>\<^verbatim>\<open>get_user(UserType.Producer, username)\<close> of \<^verbatim>\<open>src/lib/user_database.py\<close>.\<close>

definition get_user :: "producer \<Rightarrow> session \<Rightarrow> error + producer" where
  "get_user username s =
     (if username \<in> set (producers (live s)) then Inr username
      else Inl (ValueError (''Producer '' @ [CHR 0x27] @ username @ [CHR 0x27] @ '' does not exist!'')))"

text \<open>The relationship \<^verbatim>\<open>point.map\<close>: the map key the point's foreign key names.\<close>

definition point_map :: "StoredPoint \<Rightarrow> database \<Rightarrow> error + MapKey" where
  "point_map p d =
     (case find (\<lambda>m. key_map_id m = map_id p) (map_keys d) of
        None \<Rightarrow> Inl AttributeError
      | Some m \<Rightarrow> Inr m)"

text \<open>The relationship \<^verbatim>\<open>map_key.reverse_querists\<close>.\<close>

definition map_reverse_querists :: "MapKey \<Rightarrow> database \<Rightarrow> ReverseQuerist list" where
  "map_reverse_querists m d =
     filter (\<lambda>q. querist_map_id q = Some (key_map_id m)) (reverse_querists d)"

section \<open>The comparison engine\<close>

text \<open>
  \<^verbatim>\<open>_prepare_comparisons\<close>: one comparison per point, and the producer is entered into
  the point's open requests and current comparators; one commit at the end. The points
  are passed by primary key, the loop reads the loaded rows.
\<close>

definition comparison_of ::
  "config \<Rightarrow> producer \<Rightarrow> StoredPoint \<Rightarrow> int \<times> int option \<times> int option \<times> int option" where
  "comparison_of cfg producer point =
     (if last_comparator point \<noteq> Some producer \<or> EVAL cfg
      then (point_id point, fz_optimal point, fz_pending point, fz_unknown point)
      else (point_id point, None, None, None))"

definition request_point :: "producer \<Rightarrow> StoredPoint \<Rightarrow> StoredPoint" where
  "request_point producer point =
     point\<lparr>open_requests := append_new producer (open_requests point),
           current_comparators := append_new producer (current_comparators point)\<rparr>"

fun prepare_loop ::
  "config \<Rightarrow> producer \<Rightarrow> int list \<Rightarrow> database \<Rightarrow>
   (int \<times> int option \<times> int option \<times> int option) list \<times> database" where
  "prepare_loop cfg producer [] d = ([], d)"
| "prepare_loop cfg producer (i # ids) d =
     (case find (\<lambda>p. point_id p = i) (points d) of
        None \<Rightarrow> prepare_loop cfg producer ids d
      | Some point \<Rightarrow>
          (case prepare_loop cfg producer ids (put_point (request_point producer point) d) of
             (comparisons, d') \<Rightarrow> (comparison_of cfg producer point # comparisons, d')))"

definition prepare_comparisons ::
  "config \<Rightarrow> int list \<Rightarrow> producer \<Rightarrow> session \<Rightarrow>
   (int \<times> int option \<times> int option \<times> int option) list \<times> session" where
  "prepare_comparisons cfg ids producer s =
     (case prepare_loop cfg producer ids (live s) of
        (comparisons, d') \<Rightarrow> (comparisons, commit (s\<lparr>live := d'\<rparr>)))"

text \<open>
  \<^verbatim>\<open>_store_comparison\<close>, lines 89 to 98: the check of \<^verbatim>\<open>result_optimal_pending\<close>.
\<close>

definition check_pending :: "int option \<Rightarrow> StoredPoint \<Rightarrow> error + StoredPoint" where
  "check_pending result_optimal_pending point =
     (if truthy result_optimal_pending then
        if \<not> truthy (fz_pending point) then Inl (ValueError ''Comparison was unasked for.'')
        else if result_optimal_pending \<noteq> fz_optimal point then
          Inl (ValueError
            ''Latest comparison could not be verified, please contact platform operators.'')
        else Inr (point\<lparr>fz_pending := None, provider_pending := None\<rparr>)
      else if truthy (fz_pending point) then Inl (ValueError ''Comparison was not verified.'')
      else Inr point)"

text \<open>Lines 100 to 121: the check of \<^verbatim>\<open>result_optimal_unknown\<close>.\<close>

definition check_unknown :: "config \<Rightarrow> int option \<Rightarrow> StoredPoint \<Rightarrow> error + StoredPoint" where
  "check_unknown cfg result_optimal_unknown point =
     (if truthy result_optimal_unknown then
        if \<not> truthy (fz_unknown point) then Inl (ValueError ''Comparison was unasked for.'')
        else
          bind
            (if result_optimal_unknown = fz_unknown point then
               Inr (point\<lparr>fz_pending := fz_optimal point,
                          provider_pending := provider_optimal point,
                          fz_optimal := result_optimal_unknown,
                          provider_optimal := provider_unknown point,
                          point_vendees := []\<rparr>)
             else if result_optimal_unknown \<noteq> fz_optimal point then
               Inl (ValueError ''Comparison result is not valid.'')
             else if provider_optimal point = provider_unknown point then
               Inl (ValueError
                 ''Last provider provided sub-optimal value, please contact platform operators.'')
             else
               Inr (point\<lparr>fz_pending := fz_unknown point,
                          provider_pending := provider_unknown point\<rparr>))
            (\<lambda>q. Inr (if \<not> EVAL cfg then q\<lparr>fz_unknown := None, provider_unknown := None\<rparr>
                       else q))
      else if truthy (fz_unknown point) then Inl (ValueError ''Comparison was not performed.'')
      else Inr point)"

text \<open>
  Lines 129/130 and 135/136: \<^verbatim>\<open>(EncryptedNumber(public_key, fz) - old_offset + new_offset).ciphertext()\<close>;
  an offset that is \<^verbatim>\<open>None\<close> raises in the subtraction.
\<close>

definition remask_ct :: "cipher \<Rightarrow> int \<Rightarrow> int option \<Rightarrow> int \<Rightarrow> int \<Rightarrow> error + int" where
  "remask_ct ph n old_offset new_offset c =
     (case old_offset of
        None \<Rightarrow> Inl TypeError
      | Some old \<Rightarrow>
          Inr (ciphertext ph n (add_scalar ph n (add_scalar ph n c (- old)) new_offset)))"

definition remask_slot ::
  "config \<Rightarrow> cipher \<Rightarrow> int \<Rightarrow> int option \<Rightarrow> int \<Rightarrow> int option \<Rightarrow> error + int option" where
  "remask_slot cfg ph n old_offset new_offset slot =
     (case slot of
        None \<Rightarrow> Inr None
      | Some c \<Rightarrow>
          if c = 0 then Inr (Some c)
          else bind (remask_ct ph n old_offset new_offset c)
                 (\<lambda>ct. Inr (Some (if EVAL cfg then c else ct))))"

text \<open>Lines 123 to 139: the new epoch and the re-masking under the fresh offset.\<close>

definition rotate_offset ::
  "config \<Rightarrow> cipher \<Rightarrow> int \<Rightarrow> producer \<Rightarrow> int \<Rightarrow> StoredPoint \<Rightarrow> error + StoredPoint" where
  "rotate_offset cfg ph n producer new_offset point =
     (let old_offset = current_offset point;
          p1 = point\<lparr>last_comparator := Some producer,
                     current_comparators := [],
                     current_offset := Some new_offset\<rparr>
      in bind (remask_slot cfg ph n old_offset new_offset (fz_optimal p1))
           (\<lambda>fo. bind (remask_slot cfg ph n old_offset new_offset (fz_pending p1))
              (\<lambda>fp. Inr (p1\<lparr>fz_optimal := fo, fz_pending := fp\<rparr>))))"

text \<open>Lines 88 to 143: the body of the \<^verbatim>\<open>try\<close>, before the commit.\<close>

definition resolve_comparison ::
  "config \<Rightarrow> cipher \<Rightarrow> int \<Rightarrow> int \<Rightarrow> int option \<Rightarrow> int option \<Rightarrow> producer \<Rightarrow> StoredPoint \<Rightarrow>
   error + StoredPoint" where
  "resolve_comparison cfg ph n new_offset result_optimal_pending result_optimal_unknown
     producer point =
     (if last_comparator point \<noteq> Some producer \<or> EVAL cfg then
        bind (check_pending result_optimal_pending point)
          (\<lambda>p1. bind (check_unknown cfg result_optimal_unknown p1)
             (\<lambda>p2. rotate_offset cfg ph n producer new_offset p2))
      else if truthy result_optimal_pending \<or> truthy result_optimal_unknown then
        Inl (ValueError ''Comparison was unasked for.'')
      else
        bind (list_remove producer (current_comparators point))
          (\<lambda>cs. Inr (point\<lparr>current_comparators := cs\<rparr>)))"

text \<open>
  \<^verbatim>\<open>_store_comparison(comparison_result, producer)\<close>. \<open>new_offset\<close> is the value that
  \<^verbatim>\<open>random.randint(-FZ_PRECISION, FZ_PRECISION)\<close> returns when the call reaches it.
\<close>

definition store_comparison ::
  "config \<Rightarrow> cipher \<Rightarrow> int \<Rightarrow> int \<times> int option \<times> int option \<Rightarrow> producer \<Rightarrow> session \<Rightarrow>
   (error + StoredPoint) \<times> session" where
  "store_comparison cfg ph new_offset comparison_result producer s =
     (case comparison_result of (pid, result_optimal_pending, result_optimal_unknown) \<Rightarrow>
      (case one (filter (\<lambda>p. point_id p = pid) (points (live s))) of
         Inl e \<Rightarrow> (Inl (if e = NoResultFound then ValueErrorFrom e else e), s)
       | Inr point \<Rightarrow>
          (case point_map point (live s) of
             Inl e \<Rightarrow> (Inl e, s)
           | Inr map_key \<Rightarrow>
              if producer \<notin> set (open_requests point) then
                (Inl (ValueError ''Producer did not properly request comparison.''), s)
              else if producer \<in> set (current_comparators point) then
                (case resolve_comparison cfg ph (public_key_n map_key) new_offset
                        result_optimal_pending result_optimal_unknown producer point of
                   Inl e \<Rightarrow> (Inl (ValueErrorFrom e), rollback s)
                 | Inr point' \<Rightarrow> (Inr point', commit (modify (put_point point') s)))
              else (Inr point, s))))"

section \<open>Retrieval: the regular query\<close>

text \<open>\<^verbatim>\<open>_add_to_retrieval_db_producer\<close>: one row per query, committed.\<close>

definition add_to_retrieval_db_producer ::
  "nat \<Rightarrow> producer \<Rightarrow> session \<Rightarrow> nat \<times> session" where
  "add_to_retrieval_db_producer n client s =
     (let t = \<lparr>retrieval_id = Suc (length (retrievals_producer (live s))),
               retrieval_client = client, retrieval_point_count = n\<rparr>
      in (retrieval_id t,
          commit (modify (\<lambda>d. d\<lparr>retrievals_producer := retrievals_producer d @ [t]\<rparr>) s)))"

text \<open>
  \<^verbatim>\<open>_add_to_billing_db_producer\<close>: the dictionary of counts per provider, in insertion order,
  then one billing row per entry. The provider column is not nullable: a point without
  \<^verbatim>\<open>provider_optimal\<close> makes the commit fail.
\<close>

fun count_providers ::
  "StoredPoint list \<Rightarrow> (producer option \<times> nat) list \<Rightarrow> (producer option \<times> nat) list" where
  "count_providers [] providers = providers"
| "count_providers (point # ps) providers =
     count_providers ps
       (if provider_optimal point \<in> fst ` set providers
        then map (\<lambda>(k, c). if k = provider_optimal point then (k, c + 1) else (k, c)) providers
        else providers @ [(provider_optimal point, 1)])"

definition add_to_billing_db_producer ::
  "StoredPoint list \<Rightarrow> producer \<Rightarrow> nat \<Rightarrow> session \<Rightarrow> (error + unit) \<times> session" where
  "add_to_billing_db_producer ps client retrieval s =
     (let providers = count_providers ps [] in
      if None \<in> fst ` set providers then (Inl (ValueErrorFrom IntegrityError), rollback s)
      else
        (Inr (),
         commit (modify (\<lambda>d. d\<lparr>billing_information_producer :=
             billing_information_producer d @
               map (\<lambda>(provider, count).
                      \<lparr>billing_client = client, billing_provider = the provider,
                       count_provider = count, billing_retrieval = retrieval\<rparr>) providers\<rparr>) s)))"

text \<open>
  \<^verbatim>\<open>get_comparisons_client\<close>. The query's \<^verbatim>\<open>provider != client\<close> on a many-to-one
  relationship also keeps the rows whose provider is \<^verbatim>\<open>NULL\<close>.
\<close>

definition client_relevant ::
  "int \<Rightarrow> (int \<times> int) list \<Rightarrow> producer \<Rightarrow> StoredPoint \<Rightarrow> bool" where
  "client_relevant mid ap_ae client p =
     (map_id p = mid \<and> (ap p, ae p) \<in> set ap_ae \<and> fz_optimal p \<noteq> None \<and>
      provider_optimal p \<noteq> Some client \<and> provider_unknown p \<noteq> Some client \<and>
      client \<notin> set (point_vendees p))"

definition get_comparisons_client ::
  "config \<Rightarrow> int \<Rightarrow> (int \<times> int) list \<Rightarrow> producer \<Rightarrow> session \<Rightarrow>
   (error + (int \<times> int option \<times> int option \<times> int option) list) \<times> session" where
  "get_comparisons_client cfg mid ap_ae producer s =
     (case get_user producer s of
        Inl e \<Rightarrow> (Inl e, s)
      | Inr client \<Rightarrow>
         (case one (filter (\<lambda>m. key_map_id m = mid) (map_keys (live s))) of
            Inl e \<Rightarrow> (Inl (if e = NoResultFound then ValueErrorFrom e else e), s)
          | Inr map_key \<Rightarrow>
             if \<exists>querist \<in> set (map_reverse_querists map_key (live s)).
                  querist_producer querist = client then
               (Inl (ValueError ''Producer already reverse-queried given map.''), s)
             else
               (let ps = filter (client_relevant mid ap_ae client) (points (live s)) in
                if ps = [] then (Inl (ValueError ''No relevant points stored.''), s)
                else
                  (let s1 = modify (put_map_key
                              (map_key\<lparr>past_requests :=
                                 append_new client (past_requests map_key)\<rparr>)) s
                   in case prepare_comparisons cfg (map point_id ps) client s1 of
                        (comparisons, s2) \<Rightarrow> (Inr comparisons, s2)))))"

text \<open>
  \<^verbatim>\<open>get_points\<close>. The loop of lines 266 to 271; \<open>rnd i\<close> is the offset drawn for the
  \<open>i\<close>-th result, should its comparison reach the draw. The retrieved points are kept by
  primary key. The vendees are rows of an association table: appending a producer that is
  a vendee already adds no row, so the list that the session shows after the call holds it
  once.
\<close>

fun get_points_loop ::
  "config \<Rightarrow> cipher \<Rightarrow> (nat \<Rightarrow> int) \<Rightarrow> nat \<Rightarrow> (int \<times> int option \<times> int option) list \<Rightarrow>
   producer \<Rightarrow> int list \<Rightarrow> session \<Rightarrow> (error + int list) \<times> session" where
  "get_points_loop cfg ph rnd i [] client ids s = (Inr ids, s)"
| "get_points_loop cfg ph rnd i (result # results) client ids s =
     (case store_comparison cfg ph (rnd i) result client s of
        (Inl e, s1) \<Rightarrow> (Inl e, s1)
      | (Inr point, s1) \<Rightarrow>
         (case list_remove client (open_requests point) of
            Inl e \<Rightarrow> (Inl e, s1)
          | Inr reqs \<Rightarrow>
             (let p1 = point\<lparr>open_requests := reqs\<rparr>;
                  p2 = (if \<not> EVAL cfg
                        then p1\<lparr>point_vendees := append_new client (point_vendees p1)\<rparr>
                        else p1)
              in get_points_loop cfg ph rnd (Suc i) results client (ids @ [point_id p2])
                   (modify (put_point p2) s1))))"

text \<open>Lines 280 to 287: the optimal value with the point's own offset taken out.\<close>

definition retrieved_point ::
  "cipher \<Rightarrow> int \<Rightarrow> StoredPoint \<Rightarrow> error + (int \<times> int \<times> int \<times> int option)" where
  "retrieved_point ph n point =
     (case fz_optimal point of
        None \<Rightarrow> Inl TypeError
      | Some c \<Rightarrow>
         (case current_offset point of
            None \<Rightarrow> Inl TypeError
          | Some off \<Rightarrow>
              Inr (ap point, ae point, ciphertext ph n (add_scalar ph n c (- off)),
                   usage_total point)))"

fun retrieved_points ::
  "cipher \<Rightarrow> int \<Rightarrow> StoredPoint list \<Rightarrow> error + (int \<times> int \<times> int \<times> int option) list" where
  "retrieved_points ph n [] = Inr []"
| "retrieved_points ph n (point # ps) =
     bind (retrieved_point ph n point)
       (\<lambda>r. bind (retrieved_points ph n ps) (\<lambda>rs. Inr (r # rs)))"

definition loaded_points :: "int list \<Rightarrow> database \<Rightarrow> StoredPoint list" where
  "loaded_points ids d = concat (map (\<lambda>i. filter (\<lambda>p. point_id p = i) (points d)) ids)"

definition get_points ::
  "config \<Rightarrow> cipher \<Rightarrow> (nat \<Rightarrow> int) \<Rightarrow> (int \<times> int option \<times> int option) list \<Rightarrow> producer \<Rightarrow>
   session \<Rightarrow> (error + (int \<times> int \<times> int \<times> int option) list) \<times> session" where
  "get_points cfg ph rnd comparison_results producer s =
     (case get_user producer s of
        Inl e \<Rightarrow> (Inl e, s)
      | Inr client \<Rightarrow>
         (case get_points_loop cfg ph rnd 0 comparison_results client [] s of
            (Inl e, s1) \<Rightarrow> (Inl (ValueErrorFrom e), rollback s1)
          | (Inr ids, s1) \<Rightarrow>
             (let s2 = commit s1;
                  ps = loaded_points ids (live s2)
              in case add_to_retrieval_db_producer (length ps) client s2 of
                   (t, s3) \<Rightarrow>
                    (case add_to_billing_db_producer ps client t s3 of
                       (Inl e, s4) \<Rightarrow> (Inl e, s4)
                     | (Inr u, s4) \<Rightarrow>
                        (case loaded_points ids (live s4) of
                           [] \<Rightarrow> (Inl IndexError, s4)
                         | p0 # rest \<Rightarrow>
                            (case point_map p0 (live s4) of
                               Inl e \<Rightarrow> (Inl e, s4)
                             | Inr map_key \<Rightarrow>
                                (retrieved_points ph (public_key_n map_key) (p0 # rest),
                                 s4)))))))"

section \<open>The reverse query: previews and the offset voucher\<close>

text \<open>
  Lines 372 to 377 of \<^verbatim>\<open>get_previews\<close>: the inner loop assigns the local variable
  \<^verbatim>\<open>offset\<close> for every point and appends the shifted row; the variable keeps the value of
  the last iteration.
\<close>

definition shift_point ::
  "cipher \<Rightarrow> int \<Rightarrow> int \<Rightarrow> StoredPoint \<Rightarrow> error + ((int \<times> int \<times> int \<times> int option) \<times> int)" where
  "shift_point ph n preview_offset point =
     (case current_offset point of
        None \<Rightarrow> Inl TypeError
      | Some off \<Rightarrow>
         (case fz_optimal point of
            None \<Rightarrow> Inl TypeError
          | Some c \<Rightarrow>
             (let offset = preview_offset - off
              in Inr ((ap point, ae point, ciphertext ph n (add_scalar ph n c offset),
                       usage_total point), offset))))"

fun preview_loop ::
  "cipher \<Rightarrow> int \<Rightarrow> int \<Rightarrow> StoredPoint list \<Rightarrow> (int \<times> int \<times> int \<times> int option) list \<Rightarrow>
   int option \<Rightarrow> error + ((int \<times> int \<times> int \<times> int option) list \<times> int option)" where
  "preview_loop ph n preview_offset [] preview_points offset = Inr (preview_points, offset)"
| "preview_loop ph n preview_offset (point # ps) preview_points offset =
     (case shift_point ph n preview_offset point of
        Inl e \<Rightarrow> Inl e
      | Inr (row, offset') \<Rightarrow>
          preview_loop ph n preview_offset ps (preview_points @ [row]) (Some offset'))"

text \<open>
  The loop over the requested maps, lines 353 to 389; \<open>rnd i\<close> is the preview offset drawn
  for the \<open>i\<close>-th requested map. Outside evaluation mode the voucher is attached to the map
  (and with it to the session) at once.
\<close>

type_synonym preview = "int \<times> (int \<times> int \<times> int \<times> int option) list"

fun get_previews_loop ::
  "config \<Rightarrow> cipher \<Rightarrow> (nat \<Rightarrow> int) \<Rightarrow> nat \<Rightarrow> int list \<Rightarrow> producer \<Rightarrow>
   preview list \<times> ReverseQuerist list \<times> PreviewBilling list \<Rightarrow> session \<Rightarrow>
   (error + preview list \<times> ReverseQuerist list \<times> PreviewBilling list) \<times> session" where
  "get_previews_loop cfg ph rnd i [] client acc s = (Inr acc, s)"
| "get_previews_loop cfg ph rnd i (mid # mids) client acc s =
     (case one_or_none (filter (\<lambda>m. key_map_id m = mid) (map_keys (live s))) of
        Inl e \<Rightarrow> (Inl e, s)
      | Inr None \<Rightarrow> (Inl (ValueError ''Requested map not stored.''), s)
      | Inr (Some map_key) \<Rightarrow>
         if \<exists>querist \<in> set (map_reverse_querists map_key (live s)).
              querist_producer querist = client then
           (Inl (ValueError ''Producer already reverse-queried given map.''), s)
         else if client \<in> set (past_requests map_key) then
           (Inl (ValueError ''Producer already regular-queried given map.''), s)
         else
           (let ps = filter (\<lambda>p. map_id p = mid \<and> fz_optimal p \<noteq> None) (points (live s)) in
            if ps = [] then get_previews_loop cfg ph rnd (Suc i) mids client acc s
            else
              (case preview_loop ph (public_key_n map_key) (rnd i) ps [] None of
                 Inl e \<Rightarrow> (Inl e, s)
               | Inr (preview_points, None) \<Rightarrow> (Inl NameError, s)
               | Inr (preview_points, Some offset) \<Rightarrow>
                  (case acc of (previews, querists, billing) \<Rightarrow>
                    (let querist =
                           \<lparr>querist_producer = client,
                            querist_map_id =
                              (if \<not> EVAL cfg then Some (key_map_id map_key) else None),
                            point_count = length ps,
                            querist_offset = offset,
                            querist_tool = tool map_key\<rparr>;
                         s1 = (if \<not> EVAL cfg
                               then modify (\<lambda>d. d\<lparr>reverse_querists :=
                                                     reverse_querists d @ [querist]\<rparr>) s
                               else s)
                     in get_previews_loop cfg ph rnd (Suc i) mids client
                          (previews @ [(key_map_id map_key, preview_points)],
                           querists @ [querist],
                           billing @ [\<lparr>preview_client = client,
                                       preview_map_id = key_map_id map_key\<rparr>]) s1)))))"

definition get_previews ::
  "config \<Rightarrow> cipher \<Rightarrow> (nat \<Rightarrow> int) \<Rightarrow> int list \<Rightarrow> producer \<Rightarrow> session \<Rightarrow>
   (error + preview list) \<times> session" where
  "get_previews cfg ph rnd map_ids producer s =
     (case get_user producer s of
        Inl e \<Rightarrow> (Inl e, s)
      | Inr client \<Rightarrow>
         (case get_previews_loop cfg ph rnd 0 map_ids client ([], [], []) s of
            (Inl e, s1) \<Rightarrow> (Inl e, s1)
          | (Inr (previews, querists, billing), s1) \<Rightarrow>
             if previews = [] then (Inl (ValueError ''No relevant points stored.''), s1)
             else
               (Inr previews,
                commit (modify (\<lambda>d. d\<lparr>reverse_querists :=
                                        (if EVAL cfg then reverse_querists d @ querists
                                         else reverse_querists d),
                                      preview_billing := preview_billing d @ billing\<rparr>) s1))))"

text \<open>
  \<^verbatim>\<open>get_preview_info\<close>: the voucher is read, deleted, and its offset and tool returned.
  The past requests are rows of an association table as well: the append adds no second
  row for a producer that is recorded already.
\<close>

definition get_preview_info ::
  "int \<Rightarrow> producer \<Rightarrow> session \<Rightarrow> (error + int \<times> string) \<times> session" where
  "get_preview_info mid producer s =
     (case get_user producer s of
        Inl e \<Rightarrow> (Inl e, s)
      | Inr client \<Rightarrow>
         (case one_or_none (filter (\<lambda>m. key_map_id m = mid) (map_keys (live s))) of
            Inl e \<Rightarrow> (Inl e, s)
          | Inr None \<Rightarrow> (Inl (ValueError ''Requested map not stored.''), s)
          | Inr (Some map_key) \<Rightarrow>
             (case one_or_none
                     (filter (\<lambda>q. querist_map_id q = Some (key_map_id map_key) \<and>
                                   querist_producer q = client) (reverse_querists (live s))) of
                Inl e \<Rightarrow> (Inl e, s)
              | Inr None \<Rightarrow> (Inl (ValueError ''Producer never reverse-queried given map.''), s)
              | Inr (Some reverse_querist) \<Rightarrow>
                 (let s1 = commit (modify (\<lambda>d.
                             put_map_key (map_key\<lparr>past_requests :=
                                            append_new client (past_requests map_key)\<rparr>)
                               (d\<lparr>reverse_querists :=
                                    remove1 reverse_querist (reverse_querists d)\<rparr>)) s);
                      s2 = commit (modify (\<lambda>d. d\<lparr>offset_billing := offset_billing d @
                             [\<lparr>offset_client = client,
                               offset_point_count = point_count reverse_querist\<rparr>]\<rparr>) s1)
                  in (Inr (querist_offset reverse_querist, querist_tool reverse_querist), s2)))))"

section \<open>Provision\<close>

text \<open>
  A new map key violates a uniqueness constraint when its map ID or its name
  (material, machine, tool) is already stored; the commit then fails. It fails as well for
  a negative modulus, which the column's encoder \<^verbatim>\<open>to_base64\<close> cannot convert. Either
  failure is caught by the same handler.
\<close>

definition map_key_conflict :: "int \<Rightarrow> string \<times> string \<times> string \<Rightarrow> database \<Rightarrow> bool" where
  "map_key_conflict mid map_name d =
     (\<exists>m \<in> set (map_keys d).
        key_map_id m = mid \<or> (machine m, material m, tool m) = map_name)"

definition named_map_keys :: "int \<Rightarrow> string \<times> string \<times> string \<Rightarrow> database \<Rightarrow> MapKey list" where
  "named_map_keys mid map_name d =
     filter (\<lambda>m. key_map_id m = mid \<and> (machine m, material m, tool m) = map_name) (map_keys d)"

definition new_map_key :: "int \<Rightarrow> string \<times> string \<times> string \<Rightarrow> int \<Rightarrow> producer \<Rightarrow> MapKey" where
  "new_map_key mid map_name n provider =
     (case map_name of (machine', material', tool') \<Rightarrow>
        \<lparr>key_map_id = mid, machine = machine', material = material', tool = tool',
         public_key_n = n, first_provider = provider, past_requests = []\<rparr>)"

definition provider_usage :: "int \<Rightarrow> producer \<Rightarrow> database \<Rightarrow> MapUsage list" where
  "provider_usage mid provider d =
     filter (\<lambda>u. usage_map_id u = mid \<and> usage_provider_name u = provider) (map_usage d)"

definition put_map_usage :: "MapUsage \<Rightarrow> database \<Rightarrow> database" where
  "put_map_usage u d =
     d\<lparr>map_usage := map (\<lambda>v. if usage_map_id v = usage_map_id u \<and>
                                  usage_provider_name v = usage_provider_name u then u else v)
                        (map_usage d)\<rparr>"

text \<open>
  The columns \<^verbatim>\<open>ap\<close> and \<^verbatim>\<open>ae\<close> are SQLite integers: a value outside the signed 64-bit
  range cannot be bound to a statement, the database driver raises \<^verbatim>\<open>OverflowError\<close>.
\<close>

definition sqlite_integer :: "int \<Rightarrow> bool" where
  "sqlite_integer x = (- (2 ^ 63) \<le> x \<and> x < 2 ^ 63)"

text \<open>The integer primary key of a new point: one more than the largest stored.\<close>

definition next_point_id :: "database \<Rightarrow> int" where
  "next_point_id d = fold max (map point_id (points d)) 0 + 1"

definition new_point :: "int \<Rightarrow> int \<Rightarrow> int \<Rightarrow> int \<Rightarrow> StoredPoint" where
  "new_point pid mid ap' ae' =
     \<lparr>point_id = pid, map_id = mid, ap = ap', ae = ae', usage_total = None,
      fz_optimal = None, provider_optimal = None, fz_pending = None, provider_pending = None,
      fz_unknown = None, provider_unknown = None, open_requests = [], current_offset = None,
      current_comparators = [], last_comparator = None, point_vendees = []\<rparr>"

text \<open>
  Lines 578 to 592 of \<^verbatim>\<open>get_comparisons_provider\<close>: a point that is not stored is
  created with a random offset; \<open>rnd i\<close> is the draw for the \<open>i\<close>-th coordinate pair.
  The query binds the pair, so a pair outside the integer range raises and no point is
  created for it.
\<close>

fun provider_points_loop ::
  "(nat \<Rightarrow> int) \<Rightarrow> nat \<Rightarrow> int \<Rightarrow> (int \<times> int) list \<Rightarrow> int list \<Rightarrow> database \<Rightarrow>
   error + int list \<times> database" where
  "provider_points_loop rnd i mid [] ids d = Inr (ids, d)"
| "provider_points_loop rnd i mid ((ap', ae') # ap_ae) ids d =
     (if \<not> (sqlite_integer ap' \<and> sqlite_integer ae') then Inl OverflowError
      else
        (case one_or_none
                (filter (\<lambda>p. map_id p = mid \<and> ap p = ap' \<and> ae p = ae') (points d)) of
           Inl e \<Rightarrow> Inl e
         | Inr (Some point) \<Rightarrow>
             provider_points_loop rnd (Suc i) mid ap_ae (ids @ [point_id point]) d
         | Inr None \<Rightarrow>
             (let point = (new_point (next_point_id d) mid ap' ae')
                            \<lparr>current_offset := Some (rnd i)\<rparr>
              in provider_points_loop rnd (Suc i) mid ap_ae (ids @ [point_id point])
                   (d\<lparr>points := points d @ [point]\<rparr>))))"

definition get_comparisons_provider ::
  "config \<Rightarrow> (nat \<Rightarrow> int) \<Rightarrow> int \<Rightarrow> string \<times> string \<times> string \<Rightarrow> int \<Rightarrow> (int \<times> int) list \<Rightarrow>
   producer \<Rightarrow> session \<Rightarrow>
   (error + (int \<times> int option \<times> int option \<times> int option) list) \<times> session" where
  "get_comparisons_provider cfg rnd mid map_name n ap_ae producer s =
     (case get_user producer s of
        Inl e \<Rightarrow> (Inl e, s)
      | Inr provider \<Rightarrow>
         (case one_or_none (named_map_keys mid map_name (live s)) of
            Inl e \<Rightarrow> (Inl (ValueErrorFrom e), s)
          | Inr found \<Rightarrow>
             (case
                (case found of
                   None \<Rightarrow>
                     if map_key_conflict mid map_name (live s) \<or> n < 0 then
                       (Inl (ValueError (''Non-unique combination of map id and map name, '' @
                                         ''please contact platform operators.'')), rollback s)
                     else
                       (Inr (new_map_key mid map_name n provider),
                        commit (modify (\<lambda>d. d\<lparr>map_keys := map_keys d @
                                  [new_map_key mid map_name n provider]\<rparr>) s))
                 | Some map_key \<Rightarrow>
                     if public_key_n map_key \<noteq> n then
                       (Inl (ValueError (''Public key could not be confirmed, '' @
                                         ''please contact platform operators.'')), s)
                     else (Inr map_key, s)) of
                (Inl e, s1) \<Rightarrow> (Inl e, s1)
              | (Inr map_key, s1) \<Rightarrow>
                 if \<exists>querist \<in> set (map_reverse_querists map_key (live s1)).
                      querist_producer querist = provider then
                   (Inl (ValueError
                      ''Producer reverse-queried given map but never retrieved offset.''), s1)
                 else
                   (case bind (one_or_none (provider_usage mid provider (live s1)))
                           (\<lambda>usage.
                              provider_points_loop rnd 0 mid ap_ae []
                                (case usage of
                                   Some u \<Rightarrow> live s1
                                 | None \<Rightarrow>
                                    (live s1)\<lparr>map_usage := map_usage (live s1) @
                                       [\<lparr>usage_map_id = mid, usage_provider_name = provider,
                                         usage_provider = None\<rparr>]\<rparr>)) of
                      Inl e \<Rightarrow> (Inl (ValueErrorFrom e), rollback s1)
                    | Inr (ids, d) \<Rightarrow>
                       (let s2 = commit (s1\<lparr>live := d\<rparr>);
                            s3 = modify (put_map_key
                                   (map_key\<lparr>past_requests :=
                                      append_new provider (past_requests map_key)\<rparr>)) s2
                        in case prepare_comparisons cfg ids provider s3 of
                             (comparisons, s4) \<Rightarrow> (Inr comparisons, s4))))))"

text \<open>
  \<^verbatim>\<open>store_records\<close>, lines 640 to 667 of the loop body: the contributed value is shifted
  into the point's epoch, the usage is added to the totals of the point and of the provider.
\<close>

definition store_value ::
  "cipher \<Rightarrow> int \<Rightarrow> int option \<Rightarrow> producer \<Rightarrow> StoredPoint \<Rightarrow> error + StoredPoint" where
  "store_value ph n fz provider point =
     (case fz of
        None \<Rightarrow> Inr point
      | Some v \<Rightarrow>
          if v = 0 then Inr point
          else
            (case current_offset point of
               None \<Rightarrow> Inl TypeError
             | Some off \<Rightarrow>
                 (let ct = ciphertext ph n (add_scalar ph n v off) in
                  if truthy (fz_optimal point)
                  then Inr (point\<lparr>fz_unknown := Some ct, provider_unknown := Some provider\<rparr>)
                  else Inr (point\<lparr>fz_optimal := Some ct, provider_optimal := Some provider\<rparr>))))"

text \<open>
  Lines 650 to 667. The object \<^verbatim>\<open>usage\<close> is shared: when the point has no total yet, the
  read-out of the total re-randomises \<^verbatim>\<open>usage\<close> itself, and the provider's total is
  computed from that re-randomised ciphertext.
\<close>

definition store_usage ::
  "cipher \<Rightarrow> int \<Rightarrow> int \<Rightarrow> StoredPoint \<Rightarrow> MapUsage \<Rightarrow> StoredPoint \<times> MapUsage" where
  "store_usage ph n usage point usage_row =
     (let sum_total =
            (if truthy (usage_total point)
             then ciphertext ph n (add_encrypted ph n (the (usage_total point)) usage)
             else ciphertext ph n usage);
          usage' = (if truthy (usage_total point) then usage else ciphertext ph n usage);
          sum_provider =
            (if truthy (usage_provider usage_row)
             then ciphertext ph n (add_encrypted ph n (the (usage_provider usage_row)) usage')
             else ciphertext ph n usage)
      in (point\<lparr>usage_total := Some sum_total\<rparr>,
          usage_row\<lparr>usage_provider := Some sum_provider\<rparr>))"

fun store_records_loop ::
  "config \<Rightarrow> cipher \<Rightarrow> (nat \<Rightarrow> int) \<Rightarrow> nat \<Rightarrow>
   (int \<times> int option \<times> int option \<times> int option \<times> int option) list \<Rightarrow> producer \<Rightarrow> session \<Rightarrow>
   (error + unit) \<times> session" where
  "store_records_loop cfg ph rnd i [] provider s = (Inr (), s)"
| "store_records_loop cfg ph rnd i ((pid, rop, rou, fz, usage) # rest) provider s =
     (case store_comparison cfg ph (rnd i) (pid, rop, rou) provider s of
        (Inl e, s1) \<Rightarrow> (Inl e, s1)
      | (Inr point, s1) \<Rightarrow>
         (case list_remove provider (open_requests point) of
            Inl e \<Rightarrow> (Inl e, s1)
          | Inr reqs \<Rightarrow>
             (let p1 = point\<lparr>open_requests := reqs\<rparr>;
                  s2 = modify (put_point p1) s1
              in case one (filter (\<lambda>m. key_map_id m = map_id p1) (map_keys (live s2))) of
                   Inl e \<Rightarrow> (Inl e, s2)
                 | Inr map_key \<Rightarrow>
                    (case one (provider_usage (map_id p1) provider (live s2)) of
                       Inl e \<Rightarrow> (Inl e, s2)
                     | Inr usage_row \<Rightarrow>
                        (case store_value ph (public_key_n map_key) fz provider p1 of
                           Inl e \<Rightarrow> (Inl e, s2)
                         | Inr p2 \<Rightarrow>
                            (let s3 = modify (put_point p2) s2;
                                 s4 =
                                   (if truthy usage then
                                      (case store_usage ph (public_key_n map_key) (the usage)
                                              p2 usage_row of
                                         (p3, usage_row') \<Rightarrow>
                                           modify (\<lambda>d. put_map_usage usage_row'
                                                          (put_point p3 d)) s3)
                                    else s3)
                             in store_records_loop cfg ph rnd (Suc i) rest provider s4))))))"

definition store_records ::
  "config \<Rightarrow> cipher \<Rightarrow> (nat \<Rightarrow> int) \<Rightarrow>
   (int \<times> int option \<times> int option \<times> int option \<times> int option) list \<Rightarrow> producer \<Rightarrow> session \<Rightarrow>
   (error + unit) \<times> session" where
  "store_records cfg ph rnd comparison_results_with_values producer s =
     (case get_user producer s of
        Inl e \<Rightarrow> (Inl e, s)
      | Inr provider \<Rightarrow>
         (case store_records_loop cfg ph rnd 0 comparison_results_with_values provider s of
            (Inl e, s1) \<Rightarrow> (Inl (ValueErrorFrom e), rollback s1)
          | (Inr u, s1) \<Rightarrow> (Inr (), commit s1)))"

text \<open>
  \<^verbatim>\<open>store_records_plaintext\<close>, the loop body of lines 734 to 772. The map usage row is the
  one found or created before the loop.
\<close>

definition plaintext_value ::
  "config \<Rightarrow> int option \<Rightarrow> producer \<Rightarrow> StoredPoint \<Rightarrow> error + StoredPoint" where
  "plaintext_value cfg fz provider point =
     (if truthy fz then
        if USE_PAILLIER cfg then
          Inr (point\<lparr>fz_unknown := fz, provider_unknown := Some provider\<rparr>)
        else
          (case fz_optimal point of
             None \<Rightarrow> Inl TypeError
           | Some stored_fz \<Rightarrow>
               if the fz > stored_fz
               then Inr (point\<lparr>fz_optimal := fz, provider_optimal := Some provider\<rparr>)
               else Inr point)
      else Inr point)"

definition plaintext_usage ::
  "config \<Rightarrow> cipher \<Rightarrow> int \<Rightarrow> int option \<Rightarrow> int \<Rightarrow> error + int" where
  "plaintext_usage cfg ph n stored_usage usage =
     (case stored_usage of
        None \<Rightarrow> Inl TypeError
      | Some t \<Rightarrow>
          if USE_PAILLIER cfg then Inr (ciphertext ph n (add_encrypted ph n t usage))
          else Inr (t + usage))"

fun store_plaintext_loop ::
  "config \<Rightarrow> cipher \<Rightarrow> int \<Rightarrow> int \<Rightarrow> producer \<Rightarrow>
   (int \<times> int \<times> int option \<times> int option) list \<Rightarrow> database \<Rightarrow> (error + unit) \<times> database" where
  "store_plaintext_loop cfg ph n mid provider [] d = (Inr (), d)"
| "store_plaintext_loop cfg ph n mid provider ((ap', ae', fz, usage) # rest) d =
     (if \<not> (sqlite_integer ap' \<and> sqlite_integer ae') then (Inl OverflowError, d) else
      case one_or_none (filter (\<lambda>p. map_id p = mid \<and> ap p = ap' \<and> ae p = ae') (points d)) of
        Inl e \<Rightarrow> (Inl e, d)
      | Inr None \<Rightarrow>
          store_plaintext_loop cfg ph n mid provider rest
            (d\<lparr>points := points d @
                 [(new_point (next_point_id d) mid ap' ae')
                    \<lparr>usage_total := usage, fz_optimal := fz,
                     provider_optimal := Some provider, current_offset := Some 0\<rparr>]\<rparr>)
      | Inr (Some point) \<Rightarrow>
         (case plaintext_value cfg fz provider point of
            Inl e \<Rightarrow> (Inl e, d)
          | Inr p1 \<Rightarrow>
             if truthy usage then
               (case plaintext_usage cfg ph n (usage_total p1) (the usage) of
                  Inl e \<Rightarrow> (Inl e, put_point p1 d)
                | Inr sum_total \<Rightarrow>
                   (case find (\<lambda>u. usage_map_id u = mid \<and> usage_provider_name u = provider)
                           (map_usage d) of
                      None \<Rightarrow> (Inl AttributeError, put_point (p1\<lparr>usage_total := Some sum_total\<rparr>) d)
                    | Some usage_row \<Rightarrow>
                       (case plaintext_usage cfg ph n (usage_provider usage_row) (the usage) of
                          Inl e \<Rightarrow> (Inl e, put_point (p1\<lparr>usage_total := Some sum_total\<rparr>) d)
                        | Inr sum_provider \<Rightarrow>
                            store_plaintext_loop cfg ph n mid provider rest
                              (put_map_usage (usage_row\<lparr>usage_provider := Some sum_provider\<rparr>)
                                 (put_point (p1\<lparr>usage_total := Some sum_total\<rparr>) d)))))
             else store_plaintext_loop cfg ph n mid provider rest (put_point p1 d)))"

text \<open>
  Lines 733 to 779: the loop in its \<^verbatim>\<open>try\<close>. \<^verbatim>\<open>MultipleResultsFound\<close> is re-raised without a
  rollback, every other exception after one; the commit follows the loop.
\<close>

definition store_plaintext_points ::
  "config \<Rightarrow> cipher \<Rightarrow> int \<Rightarrow> int \<Rightarrow> producer \<Rightarrow>
   (int \<times> int \<times> int option \<times> int option) list \<Rightarrow> session \<Rightarrow> (error + unit) \<times> session" where
  "store_plaintext_points cfg ph n mid provider records s =
     (case store_plaintext_loop cfg ph n mid provider records (live s) of
        (Inl e, d) \<Rightarrow>
          (Inl (ValueErrorFrom e),
           if e = MultipleResultsFound then s\<lparr>live := d\<rparr> else rollback (s\<lparr>live := d\<rparr>))
      | (Inr u, d) \<Rightarrow> (Inr (), commit (s\<lparr>live := d\<rparr>)))"

definition store_records_plaintext ::
  "config \<Rightarrow> cipher \<Rightarrow> int \<Rightarrow> string \<times> string \<times> string \<Rightarrow> int \<Rightarrow>
   (int \<times> int \<times> int option \<times> int option) list \<Rightarrow> producer \<Rightarrow> session \<Rightarrow>
   (error + unit) \<times> session" where
  "store_records_plaintext cfg ph mid map_name n records producer s =
     (if USE_PAILLIER cfg \<and> VALID cfg then
        (Inl (RuntimeError ''Plaintext storing not allowed for secure scheme!''), s)
      else
        (case get_user producer s of
           Inl e \<Rightarrow> (Inl e, s)
         | Inr provider \<Rightarrow>
            (case bind (one_or_none (named_map_keys mid map_name (live s)))
                    (\<lambda>k. bind (one_or_none (provider_usage mid provider (live s)))
                       (\<lambda>u. Inr (k, u))) of
               Inl e \<Rightarrow> (Inl (ValueErrorFrom e), s)
             | Inr (found, usage) \<Rightarrow>
                (case
                   (case found of
                      None \<Rightarrow>
                        if map_key_conflict mid map_name (live s) \<or> n < 0 then
                          (Inl (ValueError (''Non-unique combination of map id and map name, '' @
                                            ''please contact platform operators.'')), rollback s)
                        else
                          (Inr (new_map_key mid map_name n provider),
                           commit (modify (\<lambda>d. d\<lparr>map_keys := map_keys d @
                                     [new_map_key mid map_name n provider]\<rparr>) s))
                    | Some map_key \<Rightarrow> (Inr map_key, s)) of
                   (Inl e, s1) \<Rightarrow> (Inl e, s1)
                 | (Inr map_key, s1) \<Rightarrow>
                    (let s2 =
                           (case usage of
                              Some u \<Rightarrow> s1
                            | None \<Rightarrow>
                                commit (modify (\<lambda>d. d\<lparr>map_usage := map_usage d @
                                  [\<lparr>usage_map_id = mid, usage_provider_name = provider,
                                    usage_provider = Some 0\<rparr>]\<rparr>) s1))
                     in store_plaintext_points cfg ph (public_key_n map_key) mid provider
                          records s2)))))"

section \<open>Vendees, and the operations as calls\<close>

text \<open>
  A producer is a vendee of the point with the primary key \<open>pid\<close> in a database when
  the point is stored and the producer is among its \<^verbatim>\<open>point_vendees\<close>.
\<close>

definition is_vendee :: "producer \<Rightarrow> int \<Rightarrow> database \<Rightarrow> bool" where
  "is_vendee producer pid d =
     (list_ex (\<lambda>p. point_id p = pid) (points d) \<and>
      list_all (\<lambda>p. point_id p = pid \<longrightarrow> producer \<in> set (point_vendees p)) (points d))"






section \<open>Example data\<close>

text \<open>
  The smallest instance of the cipher's interface, used to run the definitions on concrete
  inputs: a ciphertext is its plaintext modulo \<open>n\<close>, and decryption reads it back.
\<close>

definition plain_cipher :: cipher where
  "plain_cipher =
     \<lparr>add_scalar = (\<lambda>n c k. (c + k) mod n),
      add_encrypted = (\<lambda>n c d. (c + d) mod n),
      ciphertext = (\<lambda>n c. c)\<rparr>"

definition plain_decrypt :: "int \<Rightarrow> int \<Rightarrow> int" where
  "plain_decrypt n c = c mod n"

definition example_config :: config where
  "example_config = \<lparr>EVAL = False, USE_PAILLIER = True, VALID = True, FZ_PRECISION = 3000\<rparr>"

definition example_map_key :: MapKey where
  "example_map_key =
     \<lparr>key_map_id = 1, machine = ''mill'', material = ''steel'', tool = ''drill'',
      public_key_n = 10007, first_provider = ''alice'', past_requests = []\<rparr>"

text \<open>
  A point whose optimal value 50 (of alice) and unknown value 70 (of bob) are stored under
  the offset 13; carol has requested a comparison.
\<close>

definition example_point :: StoredPoint where
  "example_point =
     \<lparr>point_id = 1, map_id = 1, ap = 1, ae = 1, usage_total = None,
      fz_optimal = Some 63, provider_optimal = Some ''alice'',
      fz_pending = None, provider_pending = None,
      fz_unknown = Some 83, provider_unknown = Some ''bob'',
      open_requests = [''carol''], current_offset = Some 13,
      current_comparators = [''carol''], last_comparator = None, point_vendees = []\<rparr>"

definition example_database ::
  "MapKey list \<Rightarrow> StoredPoint list \<Rightarrow> ReverseQuerist list \<Rightarrow> database" where
  "example_database ks ps qs =
     \<lparr>producers = [''alice'', ''bob'', ''carol''], map_keys = ks, points = ps,
      map_usage = [], reverse_querists = qs, retrievals_producer = [],
      billing_information_producer = [], preview_billing = [], offset_billing = []\<rparr>"

definition example_session ::
  "MapKey list \<Rightarrow> StoredPoint list \<Rightarrow> ReverseQuerist list \<Rightarrow> session" where
  "example_session ks ps qs =
     \<lparr>live = example_database ks ps qs, stored = example_database ks ps qs\<rparr>"

text \<open>
  The same point with a pending value stored, and with alice the provider of both the
  optimal and the unknown value.
\<close>

definition downgrade_point :: StoredPoint where
  "downgrade_point =
     example_point\<lparr>fz_pending := Some 53, provider_pending := Some ''bob'',
                   provider_unknown := Some ''alice''\<rparr>"

text \<open>A voucher of carol on the example map.\<close>

definition example_voucher :: ReverseQuerist where
  "example_voucher =
     \<lparr>querist_producer = ''carol'', querist_map_id = Some 1, point_count = 1,
      querist_offset = - 8, querist_tool = ''drill''\<rparr>"




text \<open>The homomorphic scheme without validation: plaintext provision is allowed.\<close>

definition unvalidated_config :: config where
  "unvalidated_config =
     \<lparr>EVAL = False, USE_PAILLIER = True, VALID = False, FZ_PRECISION = 3000\<rparr>"

text \<open>The example session with a usage row of carol for the example map.\<close>

definition provider_session :: session where
  "provider_session =
     (let d = (example_database [example_map_key] [example_point] [])
                \<lparr>map_usage := [\<lparr>usage_map_id = 1, usage_provider_name = ''carol'',
                                usage_provider = None\<rparr>]\<rparr>
      in \<lparr>live = d, stored = d\<rparr>)"

text \<open>
  A cipher of Paillier's shape, for running the comparison engine on ciphertexts that are
  no plaintexts: Paillier with the generator \<open>n + 1\<close> and every blinding factor 1. The
  ciphertext of \<open>m\<close> is \<open>1 + n * m\<close> modulo the square of \<open>n\<close>, adding a scalar multiplies by
  the ciphertext of the scalar, and with the blinding factor 1 decryption needs no private
  exponent. The valid ciphertexts are the residues that are 1 modulo \<open>n\<close>.
\<close>

definition unblinded_paillier :: cipher where
  "unblinded_paillier =
     \<lparr>add_scalar = (\<lambda>n c k. (c * (1 + n * (k mod n))) mod (n * n)),
      add_encrypted = (\<lambda>n c d. (c * d) mod (n * n)),
      ciphertext = (\<lambda>n c. c)\<rparr>"

definition unblinded_decrypt :: "int \<Rightarrow> int \<Rightarrow> int" where
  "unblinded_decrypt n c = ((c - 1) div n) mod n"

definition unblinded_valid :: "int \<Rightarrow> int \<Rightarrow> bool" where
  "unblinded_valid n c = (0 < c \<and> c < n * n \<and> c mod n = 1)"

text \<open>The example point under this cipher: 50 and 70 stored under the offset 13.\<close>

definition paillier_point :: StoredPoint where
  "paillier_point =
     example_point\<lparr>fz_optimal := Some 630442, fz_unknown := Some 830582\<rparr>"

section \<open>Properties\<close>

lemmas example_defs = example_session_def example_database_def example_point_def
  example_map_key_def example_config_def plain_cipher_def

lemma filter_singleton_holds: "filter P xs = [x] \<Longrightarrow> P x"
proof -
  assume "filter P xs = [x]"
  then have "x \<in> set (filter P xs)" by simp
  then show "P x" by simp
qed

subsection \<open>Open-request gating\<close>

text \<open>
  C5. For a stored point and a producer that is not in the point's open requests,
  \<^verbatim>\<open>_store_comparison\<close> raises the validation error "Producer did not properly request
  comparison." and the session, hence the point, is unchanged; this holds for every
  submitted result and every drawn offset.
\<close>

theorem store_comparison_requires_open_request:
  assumes "filter (\<lambda>p. point_id p = pid) (points (live s)) = [point]"
    and "point_map point (live s) = Inr map_key"
    and "producer \<notin> set (open_requests point)"
  shows "store_comparison cfg ph new_offset (pid, rop, rou) producer s =
           (Inl (ValueError ''Producer did not properly request comparison.''), s)"
  using assms by (simp add: store_comparison_def one_def)

theorem store_comparison_requires_open_request_witness:
  "store_comparison example_config plain_cipher 5 (1, None, Some 83) ''bob''
     (example_session [example_map_key] [example_point] []) =
   (Inl (ValueError ''Producer did not properly request comparison.''),
    example_session [example_map_key] [example_point] [])"
  by (rule store_comparison_requires_open_request
        [where point = example_point and map_key = example_map_key])
     (simp_all add: example_defs point_map_def)

subsection \<open>A requester outside the current epoch\<close>

text \<open>
  C10. A producer that is in the point's open requests but not in its current comparators
  is accepted by \<^verbatim>\<open>_store_comparison\<close> whatever results it submits: the call returns the
  point as it is stored and leaves the whole session unchanged. Hence the loop of
  \<^verbatim>\<open>get_points\<close> accepts the result, and so does the loop of \<^verbatim>\<open>store_records\<close> when the
  point's map key and the provider's usage row are stored and the point has an offset.
\<close>

theorem stale_comparator_accepted:
  assumes pt: "filter (\<lambda>p. point_id p = pid) (points (live s)) = [point]"
    and mk: "point_map point (live s) = Inr map_key"
    and req: "producer \<in> set (open_requests point)"
    and stale: "producer \<notin> set (current_comparators point)"
  shows "store_comparison cfg ph new_offset (pid, rop, rou) producer s = (Inr point, s) \<and>
         (\<exists>s'. get_points_loop cfg ph rnd i [(pid, rop, rou)] producer ids s =
                  (Inr (ids @ [pid]), s')) \<and>
         (filter (\<lambda>m. key_map_id m = map_id point) (map_keys (live s)) = [map_key] \<and>
          provider_usage (map_id point) producer (live s) = [usage_row] \<and>
          current_offset point \<noteq> None \<longrightarrow>
          (\<exists>s'. store_records_loop cfg ph rnd i [(pid, rop, rou, fz, usage)] producer s =
                   (Inr (), s')))"
proof -
  have id: "point_id point = pid"
    using filter_singleton_holds [OF pt] .
  have sc: "store_comparison cfg ph new_offset (pid, rop, rou) producer s = (Inr point, s)"
    for new_offset
    using assms by (simp add: store_comparison_def one_def)
  have gp: "\<exists>s'. get_points_loop cfg ph rnd i [(pid, rop, rou)] producer ids s =
                  (Inr (ids @ [pid]), s')"
    using req id by (simp add: sc list_remove_def Let_def)
  have sr: "\<exists>s'. store_records_loop cfg ph rnd i [(pid, rop, rou, fz, usage)] producer s =
                   (Inr (), s')"
    if k: "filter (\<lambda>m. key_map_id m = map_id point) (map_keys (live s)) = [map_key]"
      and u: "provider_usage (map_id point) producer (live s) = [usage_row]"
      and off: "current_offset point \<noteq> None"
  proof -
    have k': "filter (\<lambda>m. key_map_id m = map_id point)
                (map_keys (live (modify (put_point q) s))) = [map_key]" for q
      using k by (simp add: modify_def put_point_def)
    have u': "provider_usage (map_id point) producer (live (modify (put_point q) s)) = [usage_row]"
      for q
      using u by (simp add: modify_def put_point_def provider_usage_def)
    obtain o1 where o1: "current_offset point = Some o1"
      using off by auto
    show ?thesis
      using req o1
      by (simp add: sc list_remove_def Let_def k' u' one_def store_value_def
            split: option.split prod.split)
  qed
  show ?thesis
    using sc gp sr by blast
qed

theorem stale_comparator_accepted_witness:
  "store_comparison example_config plain_cipher 5 (1, Some 7, Some 9) ''carol''
     (example_session [example_map_key] [example_point\<lparr>current_comparators := []\<rparr>] []) =
   (Inr (example_point\<lparr>current_comparators := []\<rparr>),
    example_session [example_map_key] [example_point\<lparr>current_comparators := []\<rparr>] [])"
proof -
  have "filter (\<lambda>p. point_id p = 1)
          (points (live (example_session [example_map_key]
             [example_point\<lparr>current_comparators := []\<rparr>] []))) =
        [example_point\<lparr>current_comparators := []\<rparr>]"
    by (simp add: example_defs)
  moreover have "point_map (example_point\<lparr>current_comparators := []\<rparr>)
          (live (example_session [example_map_key]
             [example_point\<lparr>current_comparators := []\<rparr>] [])) = Inr example_map_key"
    by (simp add: example_defs point_map_def)
  moreover have "''carol'' \<in> set (open_requests (example_point\<lparr>current_comparators := []\<rparr>))"
    by (simp add: example_defs)
  moreover have "''carol'' \<notin> set (current_comparators (example_point\<lparr>current_comparators := []\<rparr>))"
    by simp
  ultimately show ?thesis
    using stale_comparator_accepted by blast
qed

subsection \<open>Offset rotation\<close>

lemma check_pending_frame:
  assumes "check_pending rop p = Inr p1"
  shows "fz_optimal p1 = fz_optimal p" "fz_unknown p1 = fz_unknown p"
    "provider_optimal p1 = provider_optimal p" "provider_unknown p1 = provider_unknown p"
    "current_offset p1 = current_offset p" "\<not> truthy (fz_pending p1)"
    "point_vendees p1 = point_vendees p" "point_id p1 = point_id p"
  using assms by (auto simp: check_pending_def truthy_def split: if_splits option.splits)

lemma check_unknown_cases:
  assumes "check_unknown cfg rou p1 = Inr p2"
  shows "current_offset p2 = current_offset p1 \<and> point_id p2 = point_id p1 \<and>
    (if truthy rou then
       truthy (fz_unknown p1) \<and>
       (if rou = fz_unknown p1
        then fz_optimal p2 = fz_unknown p1 \<and> fz_pending p2 = fz_optimal p1 \<and> point_vendees p2 = []
        else rou = fz_optimal p1 \<and> fz_optimal p2 = fz_optimal p1 \<and> fz_pending p2 = fz_unknown p1
             \<and> point_vendees p2 = point_vendees p1)
     else p2 = p1)"
  using assms by (auto simp: check_unknown_def bind_def split: if_splits)

lemma remask_slot_value:
  assumes "remask_slot cfg ph n (Some o1) o2 (Some c) = Inr r" "c \<noteq> 0" "\<not> EVAL cfg"
  shows "r = Some (ciphertext ph n (add_scalar ph n (add_scalar ph n c (- o1)) o2))"
  using assms by (auto simp: remask_slot_def remask_ct_def bind_def)

lemma rotate_offset_slots:
  assumes "rotate_offset cfg ph n producer o2 p2 = Inr p3"
  shows "current_offset p3 = Some o2" "point_vendees p3 = point_vendees p2"
    "remask_slot cfg ph n (current_offset p2) o2 (fz_optimal p2) = Inr (fz_optimal p3)"
    "remask_slot cfg ph n (current_offset p2) o2 (fz_pending p2) = Inr (fz_pending p3)"
  using assms by (auto simp: rotate_offset_def Let_def bind_def split: sum.splits)

lemma store_comparison_active:
  assumes pt: "filter (\<lambda>p. point_id p = pid) (points (live s)) = [point]"
    and mk: "point_map point (live s) = Inr map_key"
    and req: "producer \<in> set (open_requests point)"
    and cmp: "producer \<in> set (current_comparators point)"
  shows "store_comparison cfg ph new_offset (pid, rop, rou) producer s =
           (case resolve_comparison cfg ph (public_key_n map_key) new_offset rop rou producer point of
              Inl e \<Rightarrow> (Inl (ValueErrorFrom e), rollback s)
            | Inr point' \<Rightarrow> (Inr point', commit (modify (put_point point') s)))"
  using assms by (simp add: store_comparison_def one_def)

lemmas store_comparison_defs = store_comparison_def one_def point_map_def
  resolve_comparison_def check_pending_def check_unknown_def rotate_offset_def
  remask_slot_def remask_ct_def bind_def truthy_def list_remove_def
  commit_def rollback_def modify_def put_point_def

subsection \<open>No downgrade\<close>

text \<open>
  C4, as amended. In the active path, a submission whose \<^verbatim>\<open>result_optimal_unknown\<close> is
  given, equals the stored \<^verbatim>\<open>fz_optimal\<close> and not \<^verbatim>\<open>fz_unknown\<close>, on a point whose
  optimal and unknown providers are the same, is rejected in every configuration of the
  pending slot, and the session is rolled back. The cause of the \<^verbatim>\<open>ValueError\<close> is the
  first check that fails: one of the three pending checks when the pending part of the
  submission does not fit the pending slot, "unasked for" when no unknown value is stored,
  and the integrity violation "Last provider provided sub-optimal value" otherwise.
\<close>

theorem downgrade_rejected:
  assumes pt: "filter (\<lambda>p. point_id p = pid) (points (live s)) = [point]"
    and mk: "point_map point (live s) = Inr map_key"
    and req: "producer \<in> set (open_requests point)"
    and cmp: "producer \<in> set (current_comparators point)"
    and act: "last_comparator point \<noteq> Some producer \<or> EVAL cfg"
    and given: "truthy rou"
    and winner: "rou = fz_optimal point" "rou \<noteq> fz_unknown point"
    and same: "provider_optimal point = provider_unknown point"
  shows "store_comparison cfg ph new_offset (pid, rop, rou) producer s =
           (Inl (ValueErrorFrom (ValueError
              (if truthy rop \<and> \<not> truthy (fz_pending point) then ''Comparison was unasked for.''
               else if truthy rop \<and> rop \<noteq> fz_optimal point then
                 ''Latest comparison could not be verified, please contact platform operators.''
               else if \<not> truthy rop \<and> truthy (fz_pending point) then
                 ''Comparison was not verified.''
               else if \<not> truthy (fz_unknown point) then ''Comparison was unasked for.''
               else
                 ''Last provider provided sub-optimal value, please contact platform operators.''))),
            rollback s)"
  unfolding store_comparison_active [OF pt mk req cmp]
  using act given winner same
  by (simp add: resolve_comparison_def check_pending_def check_unknown_def bind_def)

theorem downgrade_rejected_witness:
  "store_comparison example_config plain_cipher 5 (1, Some 63, Some 63) ''carol''
     (example_session [example_map_key] [downgrade_point] []) =
   (Inl (ValueErrorFrom (ValueError
       ''Last provider provided sub-optimal value, please contact platform operators.'')),
    example_session [example_map_key] [downgrade_point] [])"
proof -
  let ?s = "example_session [example_map_key] [downgrade_point] []"
  have pt: "filter (\<lambda>p. point_id p = 1) (points (live ?s)) = [downgrade_point]"
    by (simp add: example_defs downgrade_point_def)
  have mk: "point_map downgrade_point (live ?s) = Inr example_map_key"
    by (simp add: example_defs downgrade_point_def point_map_def)
  have rest: "''carol'' \<in> set (open_requests downgrade_point)"
    "''carol'' \<in> set (current_comparators downgrade_point)"
    "last_comparator downgrade_point \<noteq> Some ''carol'' \<or> EVAL example_config"
    "truthy (Some 63)" "Some 63 = fz_optimal downgrade_point"
    "Some 63 \<noteq> fz_unknown downgrade_point"
    "provider_optimal downgrade_point = provider_unknown downgrade_point"
    by (simp_all add: example_defs downgrade_point_def truthy_def)
  have rb: "rollback ?s = ?s"
    by (simp add: rollback_def example_session_def)
  have slots: "truthy (fz_pending downgrade_point)" "truthy (fz_unknown downgrade_point)"
    by (simp_all add: example_defs downgrade_point_def truthy_def)
  show ?thesis
    using downgrade_rejected [OF pt mk rest, of plain_cipher 5 "Some 63"] rest(4,5) slots
    unfolding rb by simp
qed

text \<open>
  As the specification states it, the property fails on the message: with a pending value stored and no pending
  result submitted, the same submission is rejected with "Comparison was not verified."
\<close>

theorem downgrade_message_counterexample:
  "''carol'' \<in> set (open_requests downgrade_point) \<and>
   ''carol'' \<in> set (current_comparators downgrade_point) \<and>
   last_comparator downgrade_point \<noteq> Some ''carol'' \<and>
   truthy (Some 63) \<and> Some 63 = fz_optimal downgrade_point \<and>
   Some 63 \<noteq> fz_unknown downgrade_point \<and>
   provider_optimal downgrade_point = provider_unknown downgrade_point \<and>
   fst (store_comparison example_config plain_cipher 5 (1, None, Some 63) ''carol''
          (example_session [example_map_key] [downgrade_point] [])) =
     Inl (ValueErrorFrom (ValueError ''Comparison was not verified.'')) \<and>
   fst (store_comparison example_config plain_cipher 5 (1, None, Some 63) ''carol''
          (example_session [example_map_key] [downgrade_point] [])) \<noteq>
     Inl (ValueErrorFrom (ValueError
       ''Last provider provided sub-optimal value, please contact platform operators.''))"
  by (simp add: store_comparison_defs example_defs downgrade_point_def)

subsection \<open>Previews and regular queries exclude each other\<close>

lemma get_previews_loop_regular_queried:
  assumes "mid \<in> set mids"
    and "\<exists>k \<in> set (map_keys (live s)). key_map_id k = mid \<and> client \<in> set (past_requests k)"
  shows "\<exists>e s'. get_previews_loop cfg ph rnd i mids client acc s = (Inl e, s')"
  using assms
proof (induction mids arbitrary: i acc s)
  case Nil
  then show ?case by simp
next
  case (Cons m mids)
  let ?found = "filter (\<lambda>k. key_map_id k = m) (map_keys (live s))"
  show ?case
  proof (cases "one_or_none ?found")
    case (Inl e)
    then show ?thesis by simp
  next
    case (Inr r)
    show ?thesis
    proof (cases r)
      case None
      with Inr show ?thesis by simp
    next
      case (Some map_key)
      with Inr have found: "?found = [map_key]"
        by (auto simp: one_or_none_def split: list.splits)
      show ?thesis
      proof (cases "m = mid")
        case True
        from Cons.prems(2) obtain k where k: "k \<in> set (map_keys (live s))" "key_map_id k = mid"
          "client \<in> set (past_requests k)" by blast
        then have "k \<in> set ?found" using True by simp
        with found have "k = map_key" by simp
        with k Inr Some show ?thesis by simp
      next
        case False
        with Cons.prems(1) have mem: "mid \<in> set mids" by simp
        have keys: "\<exists>k \<in> set (map_keys (live (modify (\<lambda>d. d\<lparr>reverse_querists := f d\<rparr>) s))).
                       key_map_id k = mid \<and> client \<in> set (past_requests k)" for f
          using Cons.prems(2) by (simp add: modify_def)
        note ih1 = Cons.IH [OF mem Cons.prems(2)]
        note ih2 = Cons.IH [OF mem keys]
        show ?thesis
          using Inr Some ih1 ih2
          by (auto simp: Let_def split: sum.splits option.splits prod.splits)
      qed
    qed
  qed
qed

text \<open>
  C8. When a requested map is stored with the producer in its past requests,
  \<^verbatim>\<open>get_previews\<close> fails, wherever the map stands in the list of requested maps. When the
  producer holds a reverse-query voucher on a map, \<^verbatim>\<open>get_comparisons_client\<close> for that
  map fails and leaves the session unchanged.
\<close>

theorem preview_and_regular_query_exclude:
  "(mid \<in> set map_ids \<and>
    (\<exists>k \<in> set (map_keys (live s)). key_map_id k = mid \<and> producer \<in> set (past_requests k)) \<longrightarrow>
    (\<exists>e s'. get_previews cfg ph rnd map_ids producer s = (Inl e, s'))) \<and>
   ((\<exists>q \<in> set (reverse_querists (live s)).
        querist_map_id q = Some mid \<and> querist_producer q = producer) \<longrightarrow>
    (\<exists>e. get_comparisons_client cfg mid ap_ae producer s = (Inl e, s)))"
proof (intro conjI impI)
  assume a: "mid \<in> set map_ids \<and>
    (\<exists>k \<in> set (map_keys (live s)). key_map_id k = mid \<and> producer \<in> set (past_requests k))"
  show "\<exists>e s'. get_previews cfg ph rnd map_ids producer s = (Inl e, s')"
  proof (cases "get_user producer s")
    case (Inl e)
    then show ?thesis by (simp add: get_previews_def)
  next
    case (Inr client)
    then have c: "client = producer"
      by (auto simp: get_user_def split: if_splits)
    from a get_previews_loop_regular_queried [of mid map_ids s producer cfg ph rnd 0 "([], [], [])"]
    obtain e s' where "get_previews_loop cfg ph rnd 0 map_ids producer ([], [], []) s = (Inl e, s')"
      by blast
    with Inr c show ?thesis by (simp add: get_previews_def)
  qed
next
  assume "\<exists>q \<in> set (reverse_querists (live s)).
        querist_map_id q = Some mid \<and> querist_producer q = producer"
  then obtain q where q: "q \<in> set (reverse_querists (live s))" "querist_map_id q = Some mid"
    "querist_producer q = producer" by blast
  show "\<exists>e. get_comparisons_client cfg mid ap_ae producer s = (Inl e, s)"
  proof (cases "get_user producer s")
    case (Inl e)
    then show ?thesis by (simp add: get_comparisons_client_def)
  next
    case (Inr client)
    then have c: "client = producer"
      by (auto simp: get_user_def split: if_splits)
    show ?thesis
    proof (cases "one (filter (\<lambda>m. key_map_id m = mid) (map_keys (live s)))")
      case (Inl e)
      with Inr show ?thesis by (simp add: get_comparisons_client_def)
    next
      case r: (Inr map_key)
      then have "filter (\<lambda>m. key_map_id m = mid) (map_keys (live s)) = [map_key]"
        by (auto simp: one_def split: list.splits)
      then have "key_map_id map_key = mid"
        by (rule filter_singleton_holds)
      with q have "q \<in> set (map_reverse_querists map_key (live s))"
        by (simp add: map_reverse_querists_def)
      with q(3) have "\<exists>querist \<in> set (map_reverse_querists map_key (live s)).
                  querist_producer querist = producer" by blast
      with Inr c r show ?thesis by (simp add: get_comparisons_client_def)
    qed
  qed
qed

theorem preview_and_regular_query_exclude_witness:
  "(\<exists>e s'. get_previews example_config plain_cipher (\<lambda>i. 5) [1] ''carol''
             (example_session [example_map_key\<lparr>past_requests := [''carol'']\<rparr>]
                [example_point] []) = (Inl e, s')) \<and>
   (\<exists>e. get_comparisons_client example_config 1 [(1, 1)] ''carol''
           (example_session [example_map_key] [example_point] [example_voucher]) =
         (Inl e, example_session [example_map_key] [example_point] [example_voucher]))"
proof -
  have a: "(1::int) \<in> set [1] \<and>
    (\<exists>k \<in> set (map_keys (live (example_session [example_map_key\<lparr>past_requests := [''carol'']\<rparr>]
                [example_point] []))). key_map_id k = 1 \<and> ''carol'' \<in> set (past_requests k))"
    by (simp add: example_defs)
  have b: "\<exists>q \<in> set (reverse_querists (live
              (example_session [example_map_key] [example_point] [example_voucher]))).
        querist_map_id q = Some 1 \<and> querist_producer q = ''carol''"
    by (simp add: example_defs example_voucher_def)
  show ?thesis
    using a b preview_and_regular_query_exclude by blast
qed

subsection \<open>Vendee exclusion\<close>






subsection \<open>The provider path and the reverse query\<close>

text \<open>
  C6, as amended. \<^verbatim>\<open>get_comparisons_provider\<close> performs the reverse-query exclusion too:
  for a provider that holds a voucher on the requested map (stored under the given name,
  with the given modulus), the call is rejected with "Producer reverse-queried given map
  but never retrieved offset." and the session is unchanged.
\<close>

theorem provider_with_voucher_rejected:
  assumes user: "producer \<in> set (producers (live s))"
    and found: "named_map_keys mid map_name (live s) = [map_key]"
    and key: "public_key_n map_key = n"
    and voucher: "\<exists>q \<in> set (reverse_querists (live s)).
                    querist_map_id q = Some mid \<and> querist_producer q = producer"
  shows "get_comparisons_provider cfg rnd mid map_name n ap_ae producer s =
           (Inl (ValueError ''Producer reverse-queried given map but never retrieved offset.''), s)"
proof -
  have "key_map_id map_key = mid"
    using filter_singleton_holds [OF found [unfolded named_map_keys_def]] by simp
  with voucher have "\<exists>querist \<in> set (map_reverse_querists map_key (live s)).
                       querist_producer querist = producer"
    by (auto simp: map_reverse_querists_def)
  then show ?thesis
    using user found key
    by (simp add: get_comparisons_provider_def get_user_def one_or_none_def)
qed

subsection \<open>The key modulus of a stored map\<close>

lemma store_plaintext_loop_map_keys:
  "map_keys (snd (store_plaintext_loop cfg ph n mid provider records d)) = map_keys d"
proof (induction records arbitrary: d)
  case Nil
  then show ?case by simp
next
  case (Cons r records)
  obtain ap' ae' fz usage where r: "r = (ap', ae', fz, usage)"
    by (cases r) auto
  show ?case
    unfolding r
    by (simp add: Cons.IH put_point_def put_map_usage_def
          split: sum.split option.split)
qed

lemmas provider_defs = get_comparisons_provider_def get_user_def one_or_none_def
  named_map_keys_def map_key_conflict_def map_reverse_querists_def provider_usage_def
  bind_def Let_def modify_def commit_def rollback_def put_map_key_def append_new_def
  prepare_comparisons_def comparison_of_def request_point_def put_point_def
  sqlite_integer_def

theorem provider_with_voucher_rejected_witness:
  "get_comparisons_provider example_config (\<lambda>i. 7) 1 (''mill'', ''steel'', ''drill'') 10007
      [(1, 1)] ''carol'' (example_session [example_map_key] [example_point] [example_voucher]) =
   (Inl (ValueError ''Producer reverse-queried given map but never retrieved offset.''),
    example_session [example_map_key] [example_point] [example_voucher])"
proof -
  let ?s = "example_session [example_map_key] [example_point] [example_voucher]"
  have user: "''carol'' \<in> set (producers (live ?s))"
    and found: "named_map_keys 1 (''mill'', ''steel'', ''drill'') (live ?s) = [example_map_key]"
    and key: "public_key_n example_map_key = 10007"
    and voucher: "\<exists>q \<in> set (reverse_querists (live ?s)).
                    querist_map_id q = Some 1 \<and> querist_producer q = ''carol''"
    by (simp_all add: example_defs example_voucher_def named_map_keys_def)
  show ?thesis
    using provider_with_voucher_rejected [OF user found key voucher] .
qed

text \<open>
  As the specification states it, the property fails: the same request of carol is served without her voucher and
  rejected with it.
\<close>

theorem provider_preview_exclusion_counterexample:
  "(\<exists>q \<in> set (reverse_querists (live
        (example_session [example_map_key] [example_point] [example_voucher]))).
      querist_map_id q = Some 1 \<and> querist_producer q = ''carol'') \<and>
   fst (get_comparisons_provider example_config (\<lambda>i. 7) 1 (''mill'', ''steel'', ''drill'') 10007
          [(1, 1)] ''carol''
          (example_session [example_map_key] [example_point] [example_voucher])) =
     Inl (ValueError ''Producer reverse-queried given map but never retrieved offset.'') \<and>
   fst (get_comparisons_provider example_config (\<lambda>i. 7) 1 (''mill'', ''steel'', ''drill'') 10007
          [(1, 1)] ''carol''
          (example_session [example_map_key] [example_point] [])) =
     Inr [(1, Some 63, None, Some 83)]"
  by (simp add: provider_defs example_defs example_voucher_def)

text \<open>
  C9, as amended. For a map stored under the given ID and name whose modulus differs from
  the submitted \<open>n\<close>: \<^verbatim>\<open>get_comparisons_provider\<close> fails with the integrity error "Public key
  could not be confirmed" and changes nothing; \<^verbatim>\<open>store_records_plaintext\<close>, the path
  without validation, checks no modulus, and from a clean session it leaves every stored
  map key, hence every \<^verbatim>\<open>public_key_n\<close>, as it was, whether it fails or not.
\<close>

theorem public_key_n_immutable:
  assumes found: "named_map_keys mid map_name (live s) = [map_key]"
    and differs: "public_key_n map_key \<noteq> n"
  shows "(producer \<in> set (producers (live s)) \<longrightarrow>
          get_comparisons_provider cfg rnd mid map_name n ap_ae producer s =
            (Inl (ValueError
               ''Public key could not be confirmed, please contact platform operators.''), s)) \<and>
         (stored s = live s \<longrightarrow>
          map_keys (live (snd (store_records_plaintext cfg ph mid map_name n records producer s)))
            = map_keys (live s) \<and>
          map_keys (stored (snd (store_records_plaintext cfg ph mid map_name n records producer s)))
            = map_keys (live s))"
proof (rule conjI; rule impI)
  assume "producer \<in> set (producers (live s))"
  then show "get_comparisons_provider cfg rnd mid map_name n ap_ae producer s =
            (Inl (ValueError
               ''Public key could not be confirmed, please contact platform operators.''), s)"
    using found differs
    by (simp add: get_comparisons_provider_def get_user_def one_or_none_def)
next
  assume clean: "stored s = live s"
  let ?r = "store_records_plaintext cfg ph mid map_name n records producer s"
  have s2: "map_keys (live s2) = map_keys (live s) \<and> map_keys (stored s2) = map_keys (live s)"
    if "s2 = s \<or> s2 = commit (modify (\<lambda>d. d\<lparr>map_usage := map_usage d @ [u]\<rparr>) s)" for s2 u
    using that clean by (auto simp: commit_def modify_def)
  have loop: "map_keys (live (snd (store_plaintext_points cfg ph k mid provider records s2)))
                 = map_keys (live s) \<and>
              map_keys (stored (snd (store_plaintext_points cfg ph k mid provider records s2)))
                 = map_keys (live s)"
    if "map_keys (live s2) = map_keys (live s) \<and> map_keys (stored s2) = map_keys (live s)"
    for s2 k provider
    using that store_plaintext_loop_map_keys [of cfg ph k mid provider records "live s2"]
    by (auto simp: store_plaintext_points_def commit_def rollback_def
          split: prod.splits sum.splits)
  show "map_keys (live (snd ?r)) = map_keys (live s) \<and>
        map_keys (stored (snd ?r)) = map_keys (live s)"
  proof (cases "USE_PAILLIER cfg \<and> VALID cfg")
    case True
    then show ?thesis using clean by (simp add: store_records_plaintext_def)
  next
    case False
    show ?thesis
    proof (cases "get_user producer s")
      case (Inl e)
      with False show ?thesis using clean by (simp add: store_records_plaintext_def)
    next
      case (Inr provider)
      show ?thesis
      proof (cases "one_or_none (provider_usage mid provider (live s))")
        case (Inl e)
        with False Inr found show ?thesis
          using clean by (simp add: store_records_plaintext_def one_or_none_def bind_def)
      next
        case u: (Inr usage)
        show ?thesis
        proof (cases usage)
          case None
          with False Inr found u clean show ?thesis
            using loop [OF s2 [of _ "\<lparr>usage_map_id = mid, usage_provider_name = provider,
                                    usage_provider = Some 0\<rparr>", OF disjI2 [OF refl]]]
            by (simp add: store_records_plaintext_def one_or_none_def bind_def Let_def)
        next
          case (Some row)
          with False Inr found u clean show ?thesis
            using loop [OF s2 [of s, OF disjI1 [OF refl]]]
            by (simp add: store_records_plaintext_def one_or_none_def bind_def Let_def)
        qed
      qed
    qed
  qed
qed

lemmas plaintext_defs = store_records_plaintext_def store_plaintext_points_def
  plaintext_value_def plaintext_usage_def new_point_def next_point_id_def truthy_def
  get_user_def one_or_none_def named_map_keys_def map_key_conflict_def provider_usage_def
  bind_def Let_def modify_def commit_def rollback_def put_point_def put_map_usage_def
  sqlite_integer_def

theorem public_key_n_immutable_witness:
  "get_comparisons_provider example_config (\<lambda>i. 7) 1 (''mill'', ''steel'', ''drill'') 999
      [(1, 1)] ''bob'' (example_session [example_map_key] [example_point] []) =
     (Inl (ValueError ''Public key could not be confirmed, please contact platform operators.''),
      example_session [example_map_key] [example_point] []) \<and>
   map_keys (stored (snd (store_records_plaintext unvalidated_config plain_cipher 1
      (''mill'', ''steel'', ''drill'') 999 [(5, 5, Some 70, Some 2)] ''bob''
      (example_session [example_map_key] [example_point] [])))) = [example_map_key]"
proof -
  let ?s = "example_session [example_map_key] [example_point] []"
  have found: "named_map_keys 1 (''mill'', ''steel'', ''drill'') (live ?s) = [example_map_key]"
    and differs: "public_key_n example_map_key \<noteq> 999"
    and user: "''bob'' \<in> set (producers (live ?s))"
    and clean: "stored ?s = live ?s"
    and keys: "map_keys (live ?s) = [example_map_key]"
    by (simp_all add: example_defs named_map_keys_def)
  show ?thesis
    using public_key_n_immutable [OF found differs] user clean keys by metis
qed

text \<open>
  As the specification states it, the property fails for \<^verbatim>\<open>store_records_plaintext\<close>: naming the stored map with the
  modulus 999 instead of 10007, the call stores the record and returns.
\<close>

theorem unvalidated_registration_counterexample:
  "named_map_keys 1 (''mill'', ''steel'', ''drill'')
     (live (example_session [example_map_key] [example_point] [])) = [example_map_key] \<and>
   public_key_n example_map_key \<noteq> 999 \<and>
   fst (store_records_plaintext unvalidated_config plain_cipher 1
          (''mill'', ''steel'', ''drill'') 999 [(5, 5, Some 70, Some 2)] ''bob''
          (example_session [example_map_key] [example_point] [])) = Inr ()"
  by (simp add: plaintext_defs example_defs unvalidated_config_def)

subsection \<open>The offset of the voucher\<close>

lemmas preview_defs = get_previews_def get_preview_info_def get_user_def one_or_none_def
  map_reverse_querists_def shift_point_def Let_def modify_def commit_def put_map_key_def

text \<open>
  C1. The property of the specification does not hold of the code. The example point stores its optimal value 50
  under the offset 13. With the preview offset 5 drawn, \<^verbatim>\<open>get_previews\<close> returns the
  ciphertext of 55 for the point, and the voucher records the local variable
  \<^verbatim>\<open>offset\<close> of the inner loop, 5 - 13 = -8, which \<^verbatim>\<open>get_preview_info\<close> returns.
  Decrypting and subtracting the returned offset gives 63; subtracting the preview offset
  would give 50.
\<close>

theorem preview_voucher_offset_failing_input:
  "(plain_decrypt 10007 63 - 13) mod 10007 = 50 mod 10007 \<and>
   fst (get_previews example_config plain_cipher (\<lambda>i. 5) [1] ''carol''
          (example_session [example_map_key] [example_point] [])) =
     Inr [(1, [(1, 1, 55, None)])] \<and>
   fst (get_preview_info 1 ''carol''
          (snd (get_previews example_config plain_cipher (\<lambda>i. 5) [1] ''carol''
                  (example_session [example_map_key] [example_point] [])))) =
     Inr (- 8, ''drill'') \<and>
   (plain_decrypt 10007 55 - (- 8)) mod 10007 \<noteq> 50 mod 10007 \<and>
   (plain_decrypt 10007 55 - 5) mod 10007 = 50 mod 10007"
  by (simp add: preview_defs example_defs plain_decrypt_def)

subsection \<open>Batches and the rollback\<close>

lemmas retrieval_defs = get_points_def store_records_def get_user_def store_value_def
  store_usage_def provider_usage_def

text \<open>
  C3. The property of the specification does not hold of the code. In a batch of two results whose second names a
  point that is not stored, \<^verbatim>\<open>get_points\<close> and \<^verbatim>\<open>store_records\<close> raise, but
  \<^verbatim>\<open>_store_comparison\<close> has committed the first point on its own: the committed state
  shows the first point with the unknown value promoted, the offset rotated and carol as
  last comparator.
\<close>

theorem batch_rollback_failing_input:
  "fst (get_points example_config plain_cipher (\<lambda>i. 5) [(1, None, Some 83), (99, None, None)]
          ''carol'' (example_session [example_map_key] [example_point] [])) =
     Inl (ValueErrorFrom (ValueErrorFrom NoResultFound)) \<and>
   points (stored (snd
     (get_points example_config plain_cipher (\<lambda>i. 5) [(1, None, Some 83), (99, None, None)]
        ''carol'' (example_session [example_map_key] [example_point] [])))) =
     [example_point\<lparr>fz_optimal := Some 75, provider_optimal := Some ''bob'',
        fz_pending := Some 55, provider_pending := Some ''alice'',
        fz_unknown := None, provider_unknown := None, current_offset := Some 5,
        current_comparators := [], last_comparator := Some ''carol''\<rparr>] \<and>
   fst (store_records example_config plain_cipher (\<lambda>i. 5)
          [(1, None, Some 83, Some 90, Some 2), (99, None, None, None, None)]
          ''carol'' provider_session) =
     Inl (ValueErrorFrom (ValueErrorFrom NoResultFound)) \<and>
   points (stored (snd
     (store_records example_config plain_cipher (\<lambda>i. 5)
        [(1, None, Some 83, Some 90, Some 2), (99, None, None, None, None)]
        ''carol'' provider_session))) =
     [example_point\<lparr>fz_optimal := Some 75, provider_optimal := Some ''bob'',
        fz_pending := Some 55, provider_pending := Some ''alice'',
        fz_unknown := None, provider_unknown := None, current_offset := Some 5,
        current_comparators := [], last_comparator := Some ''carol''\<rparr>]"
  by (simp add: retrieval_defs store_comparison_defs example_defs provider_session_def Let_def
        put_map_usage_def)

subsection \<open>Offset rotation keeps the unmasked values\<close>

lemma unblinded_form:
  fixes n :: int
  assumes n: "1 < n" and a: "0 \<le> a" "a < n" and b: "0 \<le> b" "b < n"
  shows "((1 + n * a) * (1 + n * b)) mod (n * n) = 1 + n * ((a + b) mod n)"
proof -
  define t where "t = (a + b) mod n"
  define q where "q = (a + b) div n"
  have ab: "a + b = n * q + t"
    unfolding t_def q_def by simp
  have e1: "(1 + n * a) * (1 + n * b) = 1 + n * (a + b) + (n * n) * (a * b)"
    by (simp add: algebra_simps)
  have e2: "n * (a + b) = n * t + (n * n) * q"
    unfolding ab by (simp add: algebra_simps)
  have e: "(1 + n * a) * (1 + n * b) = (1 + n * t) + (n * n) * (q + a * b)"
    unfolding e1 e2 by (simp add: algebra_simps)
  have t: "0 \<le> t" "t < n"
    unfolding t_def using n by simp_all
  then have "t \<le> n - 1" by simp
  then have "n * t \<le> n * (n - 1)"
    using n by (simp add: mult_left_mono)
  then have hi: "1 + n * t < n * n"
    using n by (simp add: algebra_simps)
  have lo: "0 \<le> 1 + n * t"
    using n t by simp
  have "((1 + n * a) * (1 + n * b)) mod (n * n) = 1 + n * t"
    unfolding e using lo hi by simp
  then show ?thesis
    unfolding t_def .
qed

lemma unblinded_repr:
  fixes n :: int
  assumes n: "1 < n" and v: "unblinded_valid n c"
  shows "c = 1 + n * ((c - 1) div n) \<and> 0 \<le> (c - 1) div n \<and> (c - 1) div n < n"
proof -
  let ?a = "(c - 1) div n"
  from v have c: "0 < c" "c < n * n" "c mod n = 1"
    by (simp_all add: unblinded_valid_def)
  have "(c - 1) mod n = 0"
    using c(3) n by (simp add: mod_diff_left_eq [symmetric])
  then have eq: "c - 1 = n * ?a"
    by (metis add.right_neutral mult_div_mod_eq)
  have lo: "0 \<le> ?a"
    using c(1) n by (simp add: pos_imp_zdiv_nonneg_iff)
  have "n * ?a < n * n"
    using eq c(2) by simp
  then have hi: "?a < n"
    using n by simp
  show ?thesis
    using eq lo hi by simp
qed

lemma unblinded_paillier_homomorphic:
  fixes n :: int
  assumes n: "1 < n" and v: "unblinded_valid n c"
  shows "unblinded_valid n (add_scalar unblinded_paillier n c k)"
    and "unblinded_decrypt n (add_scalar unblinded_paillier n c k) mod n =
           (unblinded_decrypt n c + k) mod n"
    and "unblinded_valid n (ciphertext unblinded_paillier n c)"
    and "unblinded_decrypt n (ciphertext unblinded_paillier n c) mod n =
           unblinded_decrypt n c mod n"
proof -
  let ?a = "(c - 1) div n"
  let ?b = "k mod n"
  let ?t = "(?a + ?b) mod n"
  from unblinded_repr [OF n v] have c: "c = 1 + n * ?a" and a: "0 \<le> ?a" "?a < n"
    by simp_all
  have b: "0 \<le> ?b" "?b < n"
    using n by simp_all
  have "add_scalar unblinded_paillier n c k = (c * (1 + n * ?b)) mod (n * n)"
    by (simp add: unblinded_paillier_def)
  also have "\<dots> = ((1 + n * ?a) * (1 + n * ?b)) mod (n * n)"
    using c by simp
  also have "\<dots> = 1 + n * ?t"
    using unblinded_form [OF n a b] .
  finally have r: "add_scalar unblinded_paillier n c k = 1 + n * ?t" .
  have t: "0 \<le> ?t" "?t < n"
    using n by simp_all
  then have "?t \<le> n - 1" by simp
  then have "n * ?t \<le> n * (n - 1)"
    using n by (simp add: mult_left_mono)
  then have hi: "1 + n * ?t < n * n"
    using n by (simp add: algebra_simps)
  have lo: "0 < 1 + n * ?t"
    using n t by (simp add: add_pos_nonneg)
  have md: "(1 + n * ?t) mod n = 1"
    using n by simp
  show "unblinded_valid n (add_scalar unblinded_paillier n c k)"
    unfolding r unblinded_valid_def using lo hi md by simp
  have "unblinded_decrypt n (1 + n * ?t) = ?t"
    using n by (simp add: unblinded_decrypt_def)
  moreover have "unblinded_decrypt n c = ?a"
    using a n by (simp add: unblinded_decrypt_def)
  ultimately show "unblinded_decrypt n (add_scalar unblinded_paillier n c k) mod n =
           (unblinded_decrypt n c + k) mod n"
    unfolding r by (simp add: mod_add_right_eq)
  show "unblinded_valid n (ciphertext unblinded_paillier n c)"
    using v by (simp add: unblinded_paillier_def)
  show "unblinded_decrypt n (ciphertext unblinded_paillier n c) mod n =
           unblinded_decrypt n c mod n"
    by (simp add: unblinded_paillier_def)
qed

lemma remask_valid:
  fixes dec :: "int \<Rightarrow> int" and valid :: "int \<Rightarrow> bool"
  assumes hom: "\<forall>c k. valid c \<longrightarrow> valid (add_scalar ph n c k) \<and>
                       dec (add_scalar ph n c k) mod n = (dec c + k) mod n"
    and obf: "\<forall>c. valid c \<longrightarrow> valid (ciphertext ph n c) \<and>
                     dec (ciphertext ph n c) mod n = dec c mod n"
    and c: "valid c"
  shows "valid (ciphertext ph n (add_scalar ph n (add_scalar ph n c (- o1)) o2))"
    and "(dec (ciphertext ph n (add_scalar ph n (add_scalar ph n c (- o1)) o2)) - o2) mod n
         = (dec c - o1) mod n"
proof -
  let ?a = "add_scalar ph n c (- o1)"
  let ?b = "add_scalar ph n ?a o2"
  have va: "valid ?a" and a: "dec ?a mod n = (dec c - o1) mod n"
    using hom c by simp_all
  have vb: "valid ?b" and b0: "dec ?b mod n = (dec ?a + o2) mod n"
    using hom va by simp_all
  show "valid (ciphertext ph n ?b)"
    using obf vb by simp
  have "dec (ciphertext ph n ?b) mod n = dec ?b mod n"
    using obf vb by simp
  also have "\<dots> = (dec ?a mod n + o2) mod n"
    unfolding b0 by (simp add: mod_add_left_eq)
  also have "\<dots> = ((dec c - o1) mod n + o2) mod n"
    by (simp only: a)
  also have "\<dots> = (dec c - o1 + o2) mod n"
    by (simp add: mod_add_left_eq)
  finally have b: "dec (ciphertext ph n ?b) mod n = (dec c - o1 + o2) mod n" .
  have "(dec (ciphertext ph n ?b) - o2) mod n = (dec (ciphertext ph n ?b) mod n - o2) mod n"
    by (simp add: mod_diff_left_eq)
  also have "\<dots> = ((dec c - o1 + o2) mod n - o2) mod n"
    by (simp only: b)
  also have "\<dots> = (dec c - o1 + o2 - o2) mod n"
    by (simp add: mod_diff_left_eq)
  finally show "(dec (ciphertext ph n ?b) - o2) mod n = (dec c - o1) mod n"
    by simp
qed

text \<open>
  C2, as amended. \<open>dec\<close> is decryption with the map's private key and \<open>valid\<close> the set of
  the key's ciphertexts: scalar addition and the read-out stay within it and are additively
  homomorphic modulo \<open>n\<close> on it, and 0 is no ciphertext (Paillier's are units modulo the
  square of \<open>n\<close>). Let the optimal slot hold a ciphertext of the value \<open>v\<close> under the offset
  \<open>o1\<close>, and let a producer other than the last comparator store a comparison outside
  evaluation mode, \<open>o2\<close> being the offset the call draws when it reaches the draw. When the
  call succeeds:
  \<^item> for a producer among the current comparators, the point's offset becomes \<open>o2\<close> and
    \<open>v\<close> is kept under the new mask, in the optimal slot when the unknown value is not
    promoted, in the pending slot when it is; the promoted, or demoted, unknown value is
    re-masked alike, and every re-masked ciphertext is a ciphertext again;
  \<^item> for a producer outside the current comparators nothing is drawn: the point, with its
    offset and ciphertexts, and the session are unchanged.
  All equalities of values are modulo \<open>n\<close>.
\<close>

theorem offset_rotation_preserves_value:
  fixes dec :: "int \<Rightarrow> int" and valid :: "int \<Rightarrow> bool"
  assumes nz: "\<not> valid 0"
    and hom: "\<forall>c k. valid c \<longrightarrow> valid (add_scalar ph n c k) \<and>
                       dec (add_scalar ph n c k) mod n = (dec c + k) mod n"
    and obf: "\<forall>c. valid c \<longrightarrow> valid (ciphertext ph n c) \<and>
                     dec (ciphertext ph n c) mod n = dec c mod n"
    and pt: "filter (\<lambda>p. point_id p = pid) (points (live s)) = [point]"
    and mk: "point_map point (live s) = Inr map_key"
    and n: "public_key_n map_key = n"
    and act: "last_comparator point \<noteq> Some producer"
    and noeval: "\<not> EVAL cfg"
    and opt: "fz_optimal point = Some c" "valid c"
    and unk: "\<forall>u. fz_unknown point = Some u \<longrightarrow> valid u"
    and off: "current_offset point = Some o1"
    and v: "(dec c - o1) mod n = v mod n"
    and ok: "store_comparison cfg ph o2 (pid, rop, rou) producer s = (Inr point', s')"
  shows "if producer \<in> set (current_comparators point) then
           s' = commit (modify (put_point point') s) \<and>
           current_offset point' = Some o2 \<and>
           (if truthy rou \<and> rou = fz_unknown point
            then (\<exists>c'. fz_pending point' = Some c' \<and> valid c' \<and>
                       (dec c' - o2) mod n = v mod n) \<and>
                 (\<exists>u u'. fz_unknown point = Some u \<and> fz_optimal point' = Some u' \<and>
                          valid u' \<and> (dec u' - o2) mod n = (dec u - o1) mod n)
            else (\<exists>c'. fz_optimal point' = Some c' \<and> valid c' \<and>
                       (dec c' - o2) mod n = v mod n) \<and>
                 (truthy rou \<longrightarrow>
                    (\<exists>u u'. fz_unknown point = Some u \<and> fz_pending point' = Some u' \<and>
                             valid u' \<and> (dec u' - o2) mod n = (dec u - o1) mod n)))
         else point' = point \<and> s' = s"
proof (cases "producer \<in> set (current_comparators point)")
  case False
  have req: "producer \<in> set (open_requests point)"
    using ok pt mk by (auto simp: store_comparison_def one_def split: if_splits)
  with ok pt mk False show ?thesis
    by (simp add: store_comparison_def one_def)
next
  case cmp: True
  let ?rm = "\<lambda>x. ciphertext ph n (add_scalar ph n (add_scalar ph n x (- o1)) o2)"
  have rm: "(dec (?rm x) - o2) mod n = (dec x - o1) mod n" and vrm: "valid (?rm x)"
    if "valid x" for x
    using remask_valid [OF hom obf that] by simp_all
  have c0: "c \<noteq> 0"
    using opt(2) nz by auto
  have req: "producer \<in> set (open_requests point)"
    using ok pt mk by (auto simp: store_comparison_def one_def split: if_splits)
  from ok store_comparison_active [OF pt mk req cmp, of cfg ph o2 rop rou]
  have res: "resolve_comparison cfg ph n o2 rop rou producer point = Inr point'"
    and s': "s' = commit (modify (put_point point') s)"
    by (auto simp: n split: sum.splits)
  from res act obtain p1 p2 where
    p1: "check_pending rop point = Inr p1" and
    p2: "check_unknown cfg rou p1 = Inr p2" and
    p3: "rotate_offset cfg ph n producer o2 p2 = Inr point'"
    by (auto simp: resolve_comparison_def bind_def split: sum.splits)
  note f1 = check_pending_frame [OF p1]
  note f2 = check_unknown_cases [OF p2]
  note f3 = rotate_offset_slots [OF p3]
  have off2: "current_offset p2 = Some o1"
    using f1 f2 off by simp
  have slot: "x \<noteq> 0 \<Longrightarrow> remask_slot cfg ph n (Some o1) o2 (Some x) = Inr r \<Longrightarrow> r = Some (?rm x)"
    for x r
    using remask_slot_value [of cfg ph n o1 o2 x r] noeval by simp
  have main: "s' = commit (modify (put_point point') s) \<and>
           current_offset point' = Some o2 \<and>
           (if truthy rou \<and> rou = fz_unknown point
            then (\<exists>c'. fz_pending point' = Some c' \<and> valid c' \<and>
                       (dec c' - o2) mod n = v mod n) \<and>
                 (\<exists>u u'. fz_unknown point = Some u \<and> fz_optimal point' = Some u' \<and>
                          valid u' \<and> (dec u' - o2) mod n = (dec u - o1) mod n)
            else (\<exists>c'. fz_optimal point' = Some c' \<and> valid c' \<and>
                       (dec c' - o2) mod n = v mod n) \<and>
                 (truthy rou \<longrightarrow>
                    (\<exists>u u'. fz_unknown point = Some u \<and> fz_pending point' = Some u' \<and>
                             valid u' \<and> (dec u' - o2) mod n = (dec u - o1) mod n)))"
  proof (cases "truthy rou \<and> rou = fz_unknown point")
    case True
    then obtain u where u: "fz_unknown point = Some u" "u \<noteq> 0"
      by (auto simp: truthy_def split: option.splits)
    have vu: "valid u" using unk u(1) by simp
    from True f1 f2 have o: "fz_optimal p2 = Some u" and p: "fz_pending p2 = Some c"
      using u opt by auto
    have "fz_optimal point' = Some (?rm u)"
      using slot [OF u(2)] f3(3) o off2 by simp
    moreover have "fz_pending point' = Some (?rm c)"
      using slot [OF c0] f3(4) p off2 by simp
    moreover have "truthy (Some u)"
      using u by (simp add: truthy_def)
    ultimately show ?thesis
      using True s' f3(1) u rm [OF vu] rm [OF opt(2)] vrm [OF vu] vrm [OF opt(2)] v by simp
  next
    case False
    have o: "fz_optimal p2 = Some c"
      using False f1 f2 opt by (auto split: if_splits)
    have oc: "fz_optimal point' = Some (?rm c)"
      using slot [OF c0] f3(3) o off2 by simp
    have pend: "\<exists>u u'. fz_unknown point = Some u \<and> fz_pending point' = Some u' \<and>
                       valid u' \<and> (dec u' - o2) mod n = (dec u - o1) mod n" if t: "truthy rou"
    proof -
      from t False f1 f2 have tu: "truthy (fz_unknown point)" and
        pp: "fz_pending p2 = fz_unknown point"
        by (auto split: if_splits)
      then obtain u where u: "fz_unknown point = Some u" "u \<noteq> 0"
        by (auto simp: truthy_def split: option.splits)
      have vu: "valid u" using unk u(1) by simp
      have "fz_pending point' = Some (?rm u)"
        using slot [OF u(2)] f3(4) pp u off2 by simp
      then show ?thesis using u rm [OF vu] vrm [OF vu] by simp
    qed
    show ?thesis
      using False s' f3(1) oc rm [OF opt(2)] vrm [OF opt(2)] v pend by auto
  qed
  show ?thesis
    unfolding if_P [OF cmp] by (rule main)
qed

lemmas paillier_defs = unblinded_paillier_def unblinded_decrypt_def unblinded_valid_def
  paillier_point_def

text \<open>
  As the specification states it, the property fails twice, under unblinded Paillier with
  the modulus 10007; the optimal slot holds 50 under the offset 13, and 5 is drawn. When
  the comparison promotes the unknown value, the new optimal ciphertext unmasks to 70, the
  promoted value. When carol is in the open requests but not among the current
  comparators, the call succeeds without a draw: the offset stays 13 and the stored
  ciphertext, taken under the offset 5, unmasks to 58.
\<close>

theorem offset_rotation_counterexample:
  "unblinded_valid 10007 630442 \<and> fz_optimal paillier_point = Some 630442 \<and>
   current_offset paillier_point = Some 13 \<and>
   (unblinded_decrypt 10007 630442 - 13) mod 10007 = 50 mod 10007 \<and>
   last_comparator paillier_point \<noteq> Some ''carol'' \<and> \<not> EVAL example_config \<and>
   fst (store_comparison example_config unblinded_paillier 5 (1, None, Some 830582) ''carol''
          (example_session [example_map_key] [paillier_point] [])) =
     Inr (paillier_point\<lparr>fz_optimal := Some 750526, provider_optimal := Some ''bob'',
            fz_pending := Some 550386, provider_pending := Some ''alice'',
            fz_unknown := None, provider_unknown := None, current_offset := Some 5,
            current_comparators := [], last_comparator := Some ''carol''\<rparr>) \<and>
   (unblinded_decrypt 10007 750526 - 5) mod 10007 \<noteq> 50 mod 10007 \<and>
   fst (store_comparison example_config unblinded_paillier 5 (1, None, Some 630442) ''carol''
          (example_session [example_map_key] [paillier_point\<lparr>current_comparators := []\<rparr>] [])) =
     Inr (paillier_point\<lparr>current_comparators := []\<rparr>) \<and>
   current_offset (paillier_point\<lparr>current_comparators := []\<rparr>) \<noteq> Some 5 \<and>
   (unblinded_decrypt 10007 630442 - 5) mod 10007 \<noteq> 50 mod 10007"
  by (simp add: store_comparison_defs example_defs paillier_defs)

theorem offset_rotation_preserves_value_witness:
  "\<exists>point' s'.
     store_comparison example_config unblinded_paillier 5 (1, None, Some 630442) ''carol''
       (example_session [example_map_key] [paillier_point] []) = (Inr point', s') \<and>
     current_offset point' = Some 5 \<and>
     (\<exists>c'. fz_optimal point' = Some c' \<and> unblinded_valid 10007 c' \<and>
           (unblinded_decrypt 10007 c' - 5) mod 10007 = 50 mod 10007)"
proof -
  let ?s = "example_session [example_map_key] [paillier_point] []"
  let ?p = "paillier_point\<lparr>fz_optimal := Some 550386, fz_pending := Some 750526,
            provider_pending := Some ''bob'', fz_unknown := None, provider_unknown := None,
            current_offset := Some 5, current_comparators := [],
            last_comparator := Some ''carol''\<rparr>"
  have nz: "\<not> unblinded_valid 10007 0"
    by (simp add: unblinded_valid_def)
  have hom: "\<forall>c k. unblinded_valid 10007 c \<longrightarrow>
               unblinded_valid 10007 (add_scalar unblinded_paillier 10007 c k) \<and>
               unblinded_decrypt 10007 (add_scalar unblinded_paillier 10007 c k) mod 10007 =
                 (unblinded_decrypt 10007 c + k) mod 10007"
    and obf: "\<forall>c. unblinded_valid 10007 c \<longrightarrow>
               unblinded_valid 10007 (ciphertext unblinded_paillier 10007 c) \<and>
               unblinded_decrypt 10007 (ciphertext unblinded_paillier 10007 c) mod 10007 =
                 unblinded_decrypt 10007 c mod 10007"
    using unblinded_paillier_homomorphic [of 10007] by simp_all
  have pt: "filter (\<lambda>p. point_id p = 1) (points (live ?s)) = [paillier_point]"
    by (simp add: example_defs paillier_defs)
  have mk: "point_map paillier_point (live ?s) = Inr example_map_key"
    by (simp add: example_defs paillier_defs point_map_def)
  have n: "public_key_n example_map_key = 10007"
    by (simp add: example_defs)
  have cmp: "''carol'' \<in> set (current_comparators paillier_point)"
    and act: "last_comparator paillier_point \<noteq> Some ''carol''"
    and noeval: "\<not> EVAL example_config"
    and opt: "fz_optimal paillier_point = Some 630442" "unblinded_valid 10007 630442"
    and unk: "\<forall>u. fz_unknown paillier_point = Some u \<longrightarrow> unblinded_valid 10007 u"
    and off: "current_offset paillier_point = Some 13"
    and v: "(unblinded_decrypt 10007 630442 - 13) mod 10007 = 50 mod 10007"
    by (simp_all add: example_defs paillier_defs)
  have ok: "store_comparison example_config unblinded_paillier 5 (1, None, Some 630442) ''carol'' ?s
              = (Inr ?p, commit (modify (put_point ?p) ?s))"
    by (simp add: store_comparison_defs example_defs paillier_defs)
  have t: "\<not> (truthy (Some 630442) \<and> Some 630442 = fz_unknown paillier_point)"
    by (simp add: example_defs paillier_defs)
  from offset_rotation_preserves_value
         [OF nz hom obf pt mk n act noeval opt unk off v ok]
  have "current_offset ?p = Some 5 \<and>
        (\<exists>c'. fz_optimal ?p = Some c' \<and> unblinded_valid 10007 c' \<and>
              (unblinded_decrypt 10007 c' - 5) mod 10007 = 50 mod 10007)"
    unfolding if_P [OF cmp] if_not_P [OF t] by blast
  with ok show ?thesis
    by blast
qed

subsection \<open>The vendee record\<close>


lemma sold_points_cong: "points d' = points d \<Longrightarrow> is_vendee producer pid d' = is_vendee producer pid d"
  by (simp add: is_vendee_def)


lemma is_vendee_put_other [simp]:
  "is_vendee producer pid (put_map_key m d) = is_vendee producer pid d"
  "is_vendee producer pid (put_map_usage u d) = is_vendee producer pid d"
  by (simp_all add: is_vendee_def put_map_key_def put_map_usage_def)






















subsection \<open>The regular query keeps the vendees\<close>










subsection \<open>The reverse query keeps the vendees\<close>





subsection \<open>Provision keeps the vendees\<close>













subsection \<open>Vendee exclusion along a sequence of calls\<close>





subsection \<open>A retrieval records the vendee\<close>









end
